theory Spec2Isabelle
  imports Complex_Main
begin

section \<open>The payout driver of \<open>src/lib/payments.js\<close>\<close>

text \<open>
  The driver (\<open>Payments\<close>) orchestrates four collaborators that are injected through its
  configuration and whose code is not part of the file: the database, the network, the
  signer and the submitter. Every call the driver makes to one of them is kept in the
  model: the collaborator is a parameter (a field of the record \<open>env\<close>) that transforms an
  abstract world \<open>'w\<close> and answers with a value or with an error, and the call itself is
  appended to a trace, so that a statement can say which calls a tick makes, in which
  order and with which arguments.

  A bluebird promise chain is a computation that takes the driver's state and returns the
  settled outcome (\<open>Inl\<close> a rejection, \<open>Inr\<close> a fulfilment) with the new state.
\<close>

subsection \<open>Errors and transactions\<close>

text \<open>
  The driver distinguishes errors by class only (\<open>.catch(Class, handler)\<close>) and reads three
  properties of an error object: \<open>name\<close>, \<open>message\<close> and \<open>transaction\<close>. A transaction is
  read through its \<open>id\<close> only. The \<open>message\<close> of an error is a text or, for the submitter's
  resign signal, the offending transaction itself.
\<close>

datatype err_class = NetworkError | ResignTransactionError | OtherError

record txn =
  txn_id :: int

datatype msg = Text string | Payload txn

record err =
  cls :: err_class
  name :: string
  message :: msg
  transaction :: "txn option"

subsection \<open>Calls to the collaborators\<close>

text \<open>
  The argument of \<open>clearSignedTransactionsFromId\<close> is the JavaScript number
  \<open>transaction.id + 1\<close>; \<open>None\<close> stands for \<open>NaN\<close>, which is what the sum is when the value
  passed as transaction has no \<open>id\<close>.
\<close>

datatype call =
    IsAborted txn
  | MarkTransactionError txn string bool
  | GetHighestSequenceNumberFromTransactions
  | GetSubmittedUnconfirmedTransactions
  | ClearSignedTransactionsFromId "int option"
  | GetAccountInfo string
  | GetSequenceNumber
  | SetSequenceNumber int
  | SignTransactions int
  | SubmitTransactions
  | LogError string

record 'w env =
  db_isAborted :: "txn \<Rightarrow> 'w \<Rightarrow> (err + bool) \<times> 'w"
  db_markTransactionError :: "txn \<Rightarrow> string \<Rightarrow> bool \<Rightarrow> 'w \<Rightarrow> (err + unit) \<times> 'w"
  db_getHighestSequenceNumberFromTransactions :: "'w \<Rightarrow> (err + int option) \<times> 'w"
  db_getSubmittedUnconfirmedTransactions :: "'w \<Rightarrow> (err + txn list) \<times> 'w"
  db_clearSignedTransactionsFromId :: "int option \<Rightarrow> 'w \<Rightarrow> (err + unit) \<times> 'w"
  network_getAccountInfo :: "string \<Rightarrow> 'w \<Rightarrow> (err + int) \<times> 'w"
  signer_getSequenceNumber :: "'w \<Rightarrow> (err + int option) \<times> 'w"
  signer_setSequenceNumber :: "int \<Rightarrow> 'w \<Rightarrow> (err + unit) \<times> 'w"
  signer_signTransactions :: "int \<Rightarrow> 'w \<Rightarrow> (err + unit) \<times> 'w"
  submitter_submitTransactions :: "'w \<Rightarrow> (err + unit) \<times> 'w"
  answers_before_settle :: nat

text \<open>
  \<open>network_getAccountInfo\<close> answers with \<open>result.result.account_data.Sequence\<close>, the only
  part of the account information the driver reads. The Signer's \<open>getSequenceNumber\<close> and
  \<open>setSequenceNumber\<close> are synchronous; an error is what they throw, and since every call
  is made inside a \<open>then\<close> callback, a throw rejects the chain like a rejected promise.
  The logger is total and is not a field: a log entry is a call in the trace.

  \<open>answers_before_settle\<close> is the one fact of timing the model needs. A resign recovery
  that \<open>submitTransactions\<close> starts is not waited for, so how many answers the database
  and the network give to it before the promise of the tick settles depends on how fast
  their promises settle: none with a database that answers after an input/output round
  trip, up to all of them with collaborators whose promises are settled when they are
  returned.
\<close>

subsection \<open>The state of a \<open>Payments\<close> object\<close>

text \<open>
  \<open>fatalError\<close> is \<open>false\<close> after construction and \<open>null\<close> after an operator's abort has been
  noticed; both are falsy and both are \<open>None\<close> here. \<open>signingAndSubmitting\<close> is the
  re-entrancy guard (\<open>undefined\<close>, that is false, after construction).

  \<open>detached\<close> is not a field of the object: it holds the resign recoveries whose promise
  was dropped and that have not finished, each with the answer it waits for. The recovery
  is the chain of \<open>_handleResignError\<close>: its first callback calls
  \<open>clearSignedTransactionsFromId\<close>, the second calls the network once the database has
  answered, the third sets the cursor once the network has answered.
\<close>

datatype recovery = AwaitClear msg | AwaitAccountInfo

record 'w payments =
  fatalError :: "err option"
  signingAndSubmitting :: bool
  stellarAddress :: string
  world :: 'w
  trace :: "call list"
  detached :: "recovery list"

type_synonym ('w, 'a) promise = "'w payments \<Rightarrow> (err + 'a) \<times> 'w payments"

definition resolve :: "'a \<Rightarrow> ('w, 'a) promise" where
  "resolve v s = (Inr v, s)"

definition reject :: "err \<Rightarrow> ('w, 'a) promise" where
  "reject e s = (Inl e, s)"

definition then_p :: "('w, 'a) promise \<Rightarrow> ('a \<Rightarrow> ('w, 'b) promise) \<Rightarrow> ('w, 'b) promise" where
  "then_p p f s = (case p s of (Inl e, s') \<Rightarrow> (Inl e, s') | (Inr v, s') \<Rightarrow> f v s')"

definition perform :: "call \<Rightarrow> ('w \<Rightarrow> (err + 'a) \<times> 'w) \<Rightarrow> ('w, 'a) promise" where
  "perform c operation s =
     (case operation (world s) of (r, w) \<Rightarrow> (r, s\<lparr>world := w, trace := trace s @ [c]\<rparr>))"

definition log_error :: "string \<Rightarrow> ('w, unit) promise" where
  "log_error m s = (Inr (), s\<lparr>trace := trace s @ [LogError m]\<rparr>)"

text \<open>JavaScript's \<open>!v\<close> on a value that is absent or a number: absent and \<open>0\<close> are falsy.\<close>

definition falsy :: "int option \<Rightarrow> bool" where
  "falsy v = (case v of None \<Rightarrow> True | Some n \<Rightarrow> n = 0)"

definition DEFAULT_MAX_TRANSACTIONS :: int where
  "DEFAULT_MAX_TRANSACTIONS = 10"

subsection \<open>The driver's methods\<close>

text \<open>
  \<open>_getLatestSequenceNumberFromNetwork\<close> and \<open>_handleResignError\<close> (the names lose their
  underscore). Resign recovery is a chain of three steps: clear the signed transactions
  from \<open>transaction.id + 1\<close>, read the account's sequence number from the network, hand
  it to the signer.
\<close>

definition getLatestSequenceNumberFromNetwork :: "'w env \<Rightarrow> ('w, int) promise" where
  "getLatestSequenceNumberFromNetwork E s =
     perform (GetAccountInfo (stellarAddress s)) (network_getAccountInfo E (stellarAddress s)) s"

definition id_plus_one :: "msg \<Rightarrow> int option" where
  "id_plus_one m = (case m of Payload t \<Rightarrow> Some (txn_id t + 1) | Text _ \<Rightarrow> None)"

definition handleResignError :: "'w env \<Rightarrow> msg \<Rightarrow> ('w, unit) promise" where
  "handleResignError E tx =
     then_p (perform (ClearSignedTransactionsFromId (id_plus_one tx))
               (db_clearSignedTransactionsFromId E (id_plus_one tx)))
       (\<lambda>_. then_p (getLatestSequenceNumberFromNetwork E)
          (\<lambda>sequence. perform (SetSequenceNumber sequence) (signer_setSequenceNumber E sequence)))"

text \<open>
  \<open>handleFatalError\<close> logs, stores the error in \<open>fatalError\<close>, marks the transaction of
  the error (when it has one) with \<open>fatal = true\<close>, and rejects with the error. When the
  marking itself rejects, the chain rejects with that rejection instead.
\<close>

definition handleFatalError :: "'w env \<Rightarrow> err \<Rightarrow> ('w, unit) promise" where
  "handleFatalError E e =
     then_p (log_error ''Fatal error'')
       (\<lambda>_ s. then_p
          (case transaction e of
             Some t \<Rightarrow> perform (MarkTransactionError t (name e) True)
                         (db_markTransactionError E t (name e) True)
           | None \<Rightarrow> resolve ())
          (\<lambda>_. reject e)
          (s\<lparr>fatalError := Some e\<rparr>))"

text \<open>
  \<open>checkFatalError\<close>. Nothing between its two callbacks writes \<open>this.fatalError\<close>, so
  the error read at the start (\<open>fe\<close>) is the one the second callback reads. The second
  callback is reached with a true \<open>result\<close> only when the error has a transaction; the
  branch for a true result without one is there to make the case distinction complete.
\<close>

definition checkFatalError :: "'w env \<Rightarrow> ('w, unit) promise" where
  "checkFatalError E s =
     (case fatalError s of
        None \<Rightarrow> resolve () s
      | Some fe \<Rightarrow>
          then_p
            (case transaction fe of
               Some t \<Rightarrow> perform (IsAborted t) (db_isAborted E t)
             | None \<Rightarrow> then_p (log_error ''No transaction for this error'') (\<lambda>_. resolve False))
            (\<lambda>result.
               if \<not> result then
                 then_p (log_error ''There's been a fatal error, aborting'') (\<lambda>_. reject fe)
               else
                 (case transaction fe of
                    Some t \<Rightarrow> (\<lambda>s'. handleResignError E (Payload t) (s'\<lparr>fatalError := None\<rparr>))
                  | None \<Rightarrow> reject fe))
            s)"

definition signTransactions :: "'w env \<Rightarrow> int \<Rightarrow> ('w, unit) promise" where
  "signTransactions E limit = perform (SignTransactions limit) (signer_signTransactions E limit)"

text \<open>
  A resign recovery whose promise is dropped. \<open>startResignError\<close> is the call
  \<open>this._handleResignError(transaction)\<close> of the catch handler: \<open>Promise.bind(this)\<close> is
  fulfilled already, so the first callback of the recovery is queued ahead of everything
  the tick still has to do, and \<open>clearSignedTransactionsFromId(transaction.id + 1)\<close> is
  called before the tick settles. \<open>advance\<close> is the arrival of the answer the oldest
  unfinished recovery waits for: the database's answer (its effect on the world with it),
  on which the network is called, or the network's answer, on which the cursor is set. A
  rejection ends the recovery and is dropped, since no handler is attached.
\<close>

definition startResignError :: "msg \<Rightarrow> 'w payments \<Rightarrow> 'w payments" where
  "startResignError tx s =
     s\<lparr>trace := trace s @ [ClearSignedTransactionsFromId (id_plus_one tx)],
       detached := detached s @ [AwaitClear tx]\<rparr>"

definition advance :: "'w env \<Rightarrow> 'w payments \<Rightarrow> 'w payments" where
  "advance E s =
     (case detached s of
        [] \<Rightarrow> s
      | AwaitClear tx # rest \<Rightarrow>
          (case db_clearSignedTransactionsFromId E (id_plus_one tx) (world s) of
             (Inl e, w) \<Rightarrow> s\<lparr>world := w, detached := rest\<rparr>
           | (Inr _, w) \<Rightarrow>
               s\<lparr>world := w, trace := trace s @ [GetAccountInfo (stellarAddress s)],
                 detached := AwaitAccountInfo # rest\<rparr>)
      | AwaitAccountInfo # rest \<Rightarrow>
          (case network_getAccountInfo E (stellarAddress s) (world s) of
             (Inl e, w) \<Rightarrow> s\<lparr>world := w, detached := rest\<rparr>
           | (Inr sequence, w) \<Rightarrow>
               (case signer_setSequenceNumber E sequence w of
                  (r, w') \<Rightarrow>
                    s\<lparr>world := w', trace := trace s @ [SetSequenceNumber sequence],
                      detached := rest\<rparr>)))"

fun advances :: "'w env \<Rightarrow> nat \<Rightarrow> 'w payments \<Rightarrow> 'w payments" where
  "advances E 0 s = s"
| "advances E (Suc k) s = advances E k (advance E s)"

text \<open>
  \<open>submitTransactions\<close> catches the submitter's \<open>ResignTransactionError\<close> only. Its
  handler calls \<open>_handleResignError(err.message)\<close> and returns nothing: the recovery is
  started, its promise is dropped, and the chain goes on fulfilled. What is left of the
  tick after the handler makes no call, so the answers that reach the recovery before the
  tick settles are taken here.
\<close>

definition submitTransactions :: "'w env \<Rightarrow> ('w, unit) promise" where
  "submitTransactions E s =
     (case perform SubmitTransactions (submitter_submitTransactions E) s of
        (Inl e, s') \<Rightarrow>
          if cls e = ResignTransactionError
          then (Inr (), advances E (answers_before_settle E) (startResignError (message e) s'))
          else (Inl e, s')
      | (Inr _, s') \<Rightarrow> (Inr (), s'))"

text \<open>
  \<open>initSequenceNumber\<close>, \<open>calculateSigningLimit\<close> and \<open>_ensureSequenceNumber\<close>. The test
  \<open>!sequence\<close> of \<open>initSequenceNumber\<close> is written as a case distinction, to have the
  number at hand in the branch that adds one to it.
\<close>

definition initSequenceNumber :: "'w env \<Rightarrow> ('w, unit) promise" where
  "initSequenceNumber E =
     then_p (perform GetHighestSequenceNumberFromTransactions
               (db_getHighestSequenceNumberFromTransactions E))
       (\<lambda>sequence. then_p
          (case sequence of
             None \<Rightarrow> getLatestSequenceNumberFromNetwork E
           | Some n \<Rightarrow> if n = 0 then getLatestSequenceNumberFromNetwork E else resolve (n + 1))
          (\<lambda>sequence. perform (SetSequenceNumber sequence) (signer_setSequenceNumber E sequence)))"

definition calculateSigningLimit :: "'w env \<Rightarrow> int \<Rightarrow> ('w, int) promise" where
  "calculateSigningLimit E max_transactions =
     then_p (perform GetSubmittedUnconfirmedTransactions
               (db_getSubmittedUnconfirmedTransactions E))
       (\<lambda>result. resolve (max_transactions - int (length result)))"

definition ensureSequenceNumber :: "'w env \<Rightarrow> ('w, unit) promise" where
  "ensureSequenceNumber E =
     then_p (perform GetSequenceNumber (signer_getSequenceNumber E))
       (\<lambda>sequence. if falsy sequence then initSequenceNumber E else resolve ())"

text \<open>
  \<open>processPayments\<close> in three parts: the value of \<open>max_transactions\<close> after the default has
  been applied, the chain of \<open>then\<close>s, and the two \<open>catch\<close>es with the \<open>finally\<close>.
\<close>

definition effective_max :: "int option \<Rightarrow> int" where
  "effective_max max_transactions =
     (case max_transactions of
        None \<Rightarrow> DEFAULT_MAX_TRANSACTIONS
      | Some n \<Rightarrow> if n = 0 then DEFAULT_MAX_TRANSACTIONS else n)"

definition pipeline :: "'w env \<Rightarrow> int \<Rightarrow> ('w, unit) promise" where
  "pipeline E max_transactions =
     then_p (checkFatalError E)
       (\<lambda>_. then_p (ensureSequenceNumber E)
          (\<lambda>_. then_p (calculateSigningLimit E max_transactions)
             (\<lambda>limit. then_p (signTransactions E limit)
                (\<lambda>_. submitTransactions E))))"

definition settle :: "'w env \<Rightarrow> (err + unit) \<times> 'w payments \<Rightarrow> (err + unit) \<times> 'w payments" where
  "settle E outcome =
     (case (case outcome of
              (Inl e, s) \<Rightarrow>
                if cls e = NetworkError
                then then_p (log_error ''Network error'') (\<lambda>_. resolve ()) s
                else handleFatalError E e s
            | (Inr _, s) \<Rightarrow> (Inr (), s)) of
        (r, s') \<Rightarrow> (r, s'\<lparr>signingAndSubmitting := False\<rparr>))"

definition processPayments :: "'w env \<Rightarrow> int option \<Rightarrow> ('w, unit) promise" where
  "processPayments E max_transactions s =
     (if signingAndSubmitting s then resolve () s
      else settle E (pipeline E (effective_max max_transactions)
                       (s\<lparr>signingAndSubmitting := True\<rparr>)))"

text \<open>
  Names for parts of the chain of \<open>processPayments\<close>: what follows the fatal-error check,
  what precedes the call to the signer, and the calls to the signer and the submitter.
\<close>

definition afterFatalCheck :: "'w env \<Rightarrow> int \<Rightarrow> ('w, unit) promise" where
  "afterFatalCheck E max_transactions =
     then_p (ensureSequenceNumber E)
       (\<lambda>_. then_p (calculateSigningLimit E max_transactions)
          (\<lambda>limit. then_p (signTransactions E limit)
             (\<lambda>_. submitTransactions E)))"

definition beforeSigning :: "'w env \<Rightarrow> int \<Rightarrow> ('w, int) promise" where
  "beforeSigning E max_transactions =
     then_p (checkFatalError E)
       (\<lambda>_. then_p (ensureSequenceNumber E)
          (\<lambda>_. calculateSigningLimit E max_transactions))"

definition signAndSubmit :: "'w env \<Rightarrow> int \<Rightarrow> ('w, unit) promise" where
  "signAndSubmit E limit =
     then_p (signTransactions E limit) (\<lambda>_. submitTransactions E)"

definition beforeQuota :: "'w env \<Rightarrow> ('w, unit) promise" where
  "beforeQuota E = then_p (checkFatalError E) (\<lambda>_. ensureSequenceNumber E)"

definition new_Payments :: "string \<Rightarrow> 'w \<Rightarrow> 'w payments" where
  "new_Payments address w =
     \<lparr>fatalError = None, signingAndSubmitting = False, stellarAddress = address,
      world = w, trace = [], detached = []\<rparr>"

text \<open>The calls that sign or submit.\<close>

fun is_sign_or_submit :: "call \<Rightarrow> bool" where
  "is_sign_or_submit (SignTransactions _) = True"
| "is_sign_or_submit SubmitTransactions = True"
| "is_sign_or_submit _ = False"

section \<open>The collaborators, from the specification\<close>

text \<open>
  The database, the network, the signer and the submitter are not in the source file. The
  definitions of this section follow the contracts that sections 3 and 4.1 to 4.4 of the
  specification give them, over a world that holds the Store's rows (in ascending order of
  id), the Signer's cursor, the ledger's next sequence number for the funding account and
  the outcome the ledger will give to the submission of each row. They give the driver a
  concrete environment to run in; in \<open>sim_env\<close> the database answers after an input/output
  round trip, so no answer reaches a recovery before the tick that started it settles.
\<close>

datatype lifecycle = Pending | Signed | Submitted | Confirmed | Error string bool | Aborted

record row =
  row_id :: int
  row_state :: lifecycle
  row_sequence :: "int option"
  row_artifact :: "string option"

datatype submit_outcome = Accepted | TransientNetwork | Resign | PermanentReject

record sim =
  store :: "row list"
  cursor :: "int option"
  ledger_nextSequence :: int
  ledger_outcomes :: "(int \<times> submit_outcome) list"

text \<open>
  Modelled from the spec: \<open>Store.clearSignedFrom(id)\<close>, absent from the source. It "demotes
  every row with id \<ge> given that is in state Signed or Submitted-unconfirmed back to Pending,
  clearing signedArtifact and sequence". A bound that is not a number selects no row.
\<close>

definition demote :: "row \<Rightarrow> row" where
  "demote r = r\<lparr>row_state := Pending, row_sequence := None, row_artifact := None\<rparr>"

definition Store_clearSignedFrom :: "int option \<Rightarrow> sim \<Rightarrow> (err + unit) \<times> sim" where
  "Store_clearSignedFrom bound w =
     (Inr (), w\<lparr>store :=
        map (\<lambda>r. if (case bound of Some k \<Rightarrow> k \<le> row_id r | None \<Rightarrow> False)
                     \<and> (row_state r = Signed \<or> row_state r = Submitted)
                  then demote r else r) (store w)\<rparr>)"

text \<open>
  Modelled from the spec: \<open>Store.highestSequence()\<close>, absent from the source: the "max
  sequence across rows in state \<ge> Signed", none when there is no such row.
\<close>

definition signed_or_later :: "row \<Rightarrow> bool" where
  "signed_or_later r =
     (row_state r = Signed \<or> row_state r = Submitted \<or> row_state r = Confirmed)"

fun highest :: "row list \<Rightarrow> int option" where
  "highest [] = None"
| "highest (r # rs) =
     (if signed_or_later r then
        (case row_sequence r of
           None \<Rightarrow> highest rs
         | Some n \<Rightarrow> (case highest rs of None \<Rightarrow> Some n | Some m \<Rightarrow> Some (max n m)))
      else highest rs)"

definition Store_highestSequence :: "sim \<Rightarrow> (err + int option) \<times> sim" where
  "Store_highestSequence w = (Inr (highest (store w)), w)"

text \<open>
  Modelled from the spec: \<open>Store.listSubmittedUnconfirmed()\<close>, absent from the source: the
  "rows in state Submitted", in ascending order of id.
\<close>

definition Store_listSubmittedUnconfirmed :: "sim \<Rightarrow> (err + txn list) \<times> sim" where
  "Store_listSubmittedUnconfirmed w =
     (Inr (map (\<lambda>r. \<lparr>txn_id = row_id r\<rparr>) (filter (\<lambda>r. row_state r = Submitted) (store w))), w)"

text \<open>
  Modelled from the spec: \<open>Store.isAborted(id)\<close>, absent from the source: "true iff state =
  Aborted".
\<close>

definition Store_isAborted :: "txn \<Rightarrow> sim \<Rightarrow> (err + bool) \<times> sim" where
  "Store_isAborted t w =
     (Inr (filter (\<lambda>r. row_id r = txn_id t \<and> row_state r = Aborted) (store w) \<noteq> []), w)"

text \<open>
  Modelled from the spec: \<open>Store.markError(id, kind, fatal)\<close>, absent from the source: "any
  non-terminal \<rightarrow> Error", where Confirmed and Error with fatal = true are terminal.
\<close>

definition terminal :: "row \<Rightarrow> bool" where
  "terminal r =
     (case row_state r of Confirmed \<Rightarrow> True | Error _ fatal \<Rightarrow> fatal | _ \<Rightarrow> False)"

definition Store_markError :: "txn \<Rightarrow> string \<Rightarrow> bool \<Rightarrow> sim \<Rightarrow> (err + unit) \<times> sim" where
  "Store_markError t kind fatal w =
     (Inr (), w\<lparr>store :=
        map (\<lambda>r. if row_id r = txn_id t \<and> \<not> terminal r
                  then r\<lparr>row_state := Error kind fatal\<rparr> else r) (store w)\<rparr>)"

text \<open>
  Modelled from the spec: \<open>LedgerClient.getAccountInfo(address)\<close>, absent from the source:
  "the ledger's view of the account's next usable sequence number".
\<close>

definition Ledger_getAccountInfo :: "string \<Rightarrow> sim \<Rightarrow> (err + int) \<times> sim" where
  "Ledger_getAccountInfo address w = (Inr (ledger_nextSequence w), w)"

text \<open>
  Modelled from the spec: \<open>Signer.getSequence()\<close> and \<open>Signer.setSequence(n)\<close>, absent from
  the source: the "current cursor" and its "explicit override".
\<close>

definition Signer_getSequence :: "sim \<Rightarrow> (err + int option) \<times> sim" where
  "Signer_getSequence w = (Inr (cursor w), w)"

definition Signer_setSequence :: "int \<Rightarrow> sim \<Rightarrow> (err + unit) \<times> sim" where
  "Signer_setSequence n w = (Inr (), w\<lparr>cursor := Some n\<rparr>)"

text \<open>
  Modelled from the spec: \<open>Signer.signTransactions(limit)\<close>, absent from the source: "if
  limit \<le> 0, no-op"; otherwise the \<open>limit\<close> lowest-id Pending rows are stamped in order
  with the cursor's value, which advances by one for each row signed. The signing operation
  itself is opaque and cannot fail here; a Signer without a cursor has nothing to stamp
  with and fails.
\<close>

fun sign_rows :: "nat \<Rightarrow> int \<Rightarrow> row list \<Rightarrow> row list \<times> int" where
  "sign_rows 0 n rs = (rs, n)"
| "sign_rows (Suc k) n [] = ([], n)"
| "sign_rows (Suc k) n (r # rs) =
     (if row_state r = Pending then
        (case sign_rows k (n + 1) rs of
           (rs', n') \<Rightarrow>
             (r\<lparr>row_state := Signed, row_sequence := Some n, row_artifact := Some ''signed''\<rparr>
                # rs', n'))
      else (case sign_rows (Suc k) n rs of (rs', n') \<Rightarrow> (r # rs', n')))"

definition Signer_signTransactions :: "int \<Rightarrow> sim \<Rightarrow> (err + unit) \<times> sim" where
  "Signer_signTransactions limit w =
     (if limit \<le> 0 then (Inr (), w)
      else
        (case cursor w of
           None \<Rightarrow>
             (Inl \<lparr>cls = OtherError, name = ''Error'', message = Text ''no sequence number'',
                   transaction = None\<rparr>, w)
         | Some n \<Rightarrow>
             (case sign_rows (nat limit) n (store w) of
                (rs, n') \<Rightarrow> (Inr (), w\<lparr>store := rs, cursor := Some n'\<rparr>))))"

text \<open>
  Modelled from the spec: \<open>Submitter.submitTransactions()\<close>, absent from the source. It
  "drains all signed-unsubmitted rows in id-ascending order": Accepted marks the row
  Submitted and continues; TransientNetwork stops the batch with a network error and the
  row stays Signed; Resign stops the batch with the resign signal, which carries the
  offending row in its \<open>message\<close>, as the driver reads it; PermanentReject marks the row
  Error with fatal = false and continues. A row with no recorded outcome is accepted. The
  confirmation sweep, which the specification leaves optional in this call, is not part
  of it.
\<close>

fun outcome_of :: "(int \<times> submit_outcome) list \<Rightarrow> int \<Rightarrow> submit_outcome" where
  "outcome_of [] i = Accepted"
| "outcome_of ((j, x) # xs) i = (if i = j then x else outcome_of xs i)"

fun submit_rows :: "(int \<times> submit_outcome) list \<Rightarrow> row list \<Rightarrow> (err + unit) \<times> row list" where
  "submit_rows xs [] = (Inr (), [])"
| "submit_rows xs (r # rs) =
     (if row_state r = Signed \<and> row_artifact r \<noteq> None then
        (case outcome_of xs (row_id r) of
           Accepted \<Rightarrow>
             (case submit_rows xs rs of (x, rs') \<Rightarrow> (x, r\<lparr>row_state := Submitted\<rparr> # rs'))
         | TransientNetwork \<Rightarrow>
             (Inl \<lparr>cls = NetworkError, name = ''NetworkError'', message = Text ''network'',
                   transaction = None\<rparr>, r # rs)
         | Resign \<Rightarrow>
             (Inl \<lparr>cls = ResignTransactionError, name = ''ResignTransactionError'',
                   message = Payload \<lparr>txn_id = row_id r\<rparr>, transaction = None\<rparr>, r # rs)
         | PermanentReject \<Rightarrow>
             (case submit_rows xs rs of
                (x, rs') \<Rightarrow> (x, r\<lparr>row_state := Error ''PermanentReject'' False\<rparr> # rs')))
      else (case submit_rows xs rs of (x, rs') \<Rightarrow> (x, r # rs')))"

definition Submitter_submitTransactions :: "sim \<Rightarrow> (err + unit) \<times> sim" where
  "Submitter_submitTransactions w =
     (case submit_rows (ledger_outcomes w) (store w) of (x, rs) \<Rightarrow> (x, w\<lparr>store := rs\<rparr>))"

definition sim_env :: "sim env" where
  "sim_env =
     \<lparr>db_isAborted = Store_isAborted,
      db_markTransactionError = Store_markError,
      db_getHighestSequenceNumberFromTransactions = Store_highestSequence,
      db_getSubmittedUnconfirmedTransactions = Store_listSubmittedUnconfirmed,
      db_clearSignedTransactionsFromId = Store_clearSignedFrom,
      network_getAccountInfo = Ledger_getAccountInfo,
      signer_getSequenceNumber = Signer_getSequence,
      signer_setSequenceNumber = Signer_setSequence,
      signer_signTransactions = Signer_signTransactions,
      submitter_submitTransactions = Submitter_submitTransactions,
      answers_before_settle = 0\<rparr>"

text \<open>
  The same collaborators with promises that are settled when they are returned: both
  answers reach a recovery before the tick that started it settles.
\<close>

definition sim_env_eager :: "sim env" where
  "sim_env_eager = sim_env\<lparr>answers_before_settle := 2\<rparr>"

definition mk_row :: "int \<Rightarrow> lifecycle \<Rightarrow> int option \<Rightarrow> row" where
  "mk_row i st sq =
     \<lparr>row_id = i, row_state = st, row_sequence = sq,
      row_artifact = (if sq = None then None else Some ''signed'')\<rparr>"

text \<open>
  Modelled from the spec: \<open>Store.insertPending(dest, amount, memo)\<close>, absent from the
  source: it "creates a Payment in state Pending" under a fresh id, one more than the
  highest id in use. The rows of this model keep the lifecycle of a payment only.
\<close>

fun max_id :: "row list \<Rightarrow> int" where
  "max_id [] = 0"
| "max_id (r # rs) = max (row_id r) (max_id rs)"

definition Store_insertPending :: "'a \<Rightarrow> 'b \<Rightarrow> 'c \<Rightarrow> row list \<Rightarrow> (err + unit) \<times> row list" where
  "Store_insertPending dest amount memo rs =
     (Inr (), rs @ [\<lparr>row_id = max_id rs + 1, row_state = Pending, row_sequence = None,
                      row_artifact = None\<rparr>])"

section \<open>The client of \<open>src/lib/payments.js\<close>: creating a payment\<close>

text \<open>
  \<open>createNewPayment\<close> receives JavaScript values. A primitive value is \<open>undefined\<close>, \<open>null\<close>,
  a boolean, a number or a string; a number is \<open>NaN\<close> or a real (the tests of the code look
  at its sign and at whether it is zero only, so the rounding of doubles and the
  infinities are left out). An amount is a primitive value or an object, of which the code
  reads the properties \<open>value\<close>, \<open>currency\<close> and \<open>issuer\<close>; a property that is missing reads
  as \<open>undefined\<close>, and the properties are primitive values.
\<close>

datatype jsnum = NaN | Num real

datatype prim = Undefined | Null | Bool bool | Number jsnum | String string

record amount_object =
  amount_value :: prim
  amount_currency :: prim
  amount_issuer :: prim

datatype amount = Primitive prim | Object amount_object

datatype jstype = T_undefined | T_object | T_boolean | T_number | T_string

fun truthy :: "prim \<Rightarrow> bool" where
  "truthy Undefined = False"
| "truthy Null = False"
| "truthy (Bool b) = b"
| "truthy (Number NaN) = False"
| "truthy (Number (Num x)) = (x \<noteq> 0)"
| "truthy (String s) = (s \<noteq> [])"

fun typeof :: "prim \<Rightarrow> jstype" where
  "typeof Undefined = T_undefined"
| "typeof Null = T_object"
| "typeof (Bool b) = T_boolean"
| "typeof (Number n) = T_number"
| "typeof (String s) = T_string"

text \<open>
  \<open>Number(v)\<close>: the conversion of a string to a number is ECMAScript's, a parameter here.
\<close>

fun to_number :: "(string \<Rightarrow> jsnum) \<Rightarrow> prim \<Rightarrow> jsnum" where
  "to_number parse Undefined = NaN"
| "to_number parse Null = Num 0"
| "to_number parse (Bool b) = (if b then Num 1 else Num 0)"
| "to_number parse (Number n) = n"
| "to_number parse (String s) = parse s"

definition isNaN :: "jsnum \<Rightarrow> bool" where
  "isNaN n = (n = NaN)"

definition truthy_amount :: "amount \<Rightarrow> bool" where
  "truthy_amount a = (case a of Primitive p \<Rightarrow> truthy p | Object _ \<Rightarrow> True)"

definition typeof_amount :: "amount \<Rightarrow> jstype" where
  "typeof_amount a = (case a of Primitive p \<Rightarrow> typeof p | Object _ \<Rightarrow> T_object)"

text \<open>
  The errors that \<open>createNewPayment\<close> and \<open>validateAmount\<close> throw, one for each \<open>throw\<close> of
  the source in its order; \<open>TypeError\<close> is what reading a property of \<open>null\<close> would throw,
  in a branch that the first test of \<open>validateAmount\<close> makes unreachable.
\<close>

datatype validation_error =
    AddressInvalid
  | AmountNull
  | AmountNotNumberOrObject
  | AmountValueInvalid
  | AmountCurrencyNotString
  | AmountIssuerInvalid
  | TypeError

definition validateAmount ::
  "(prim \<Rightarrow> bool) \<Rightarrow> (string \<Rightarrow> jsnum) \<Rightarrow> amount \<Rightarrow> validation_error + unit" where
  "validateAmount is_valid parse a =
     (if \<not> truthy_amount a then Inl AmountNull
      else if typeof_amount a \<noteq> T_number \<and> typeof_amount a \<noteq> T_object
      then Inl AmountNotNumberOrObject
      else if typeof_amount a = T_object then
        (case a of
           Primitive _ \<Rightarrow> Inl TypeError
         | Object obj \<Rightarrow>
             if \<not> truthy (amount_value obj) \<or> isNaN (to_number parse (amount_value obj))
             then Inl AmountValueInvalid
             else if truthy (amount_currency obj) \<and> typeof (amount_currency obj) \<noteq> T_string
             then Inl AmountCurrencyNotString
             else if truthy (amount_issuer obj) \<and> \<not> is_valid (amount_issuer obj)
             then Inl AmountIssuerInvalid
             else Inr ())
      else Inr ())"

text \<open>
  \<open>createNewPayment\<close>: \<open>Inl\<close> is an error thrown before any promise exists, \<open>Inr\<close> the
  settled promise of \<open>database.insertNewTransaction\<close>. \<open>UInt160.is_valid\<close> and the
  database are parameters.
\<close>

definition createNewPayment ::
  "(prim \<Rightarrow> bool) \<Rightarrow> (string \<Rightarrow> jsnum) \<Rightarrow> (prim \<Rightarrow> amount \<Rightarrow> prim \<Rightarrow> 'd \<Rightarrow> (err + unit) \<times> 'd)
     \<Rightarrow> prim \<Rightarrow> amount \<Rightarrow> prim \<Rightarrow> 'd \<Rightarrow> (validation_error + (err + unit)) \<times> 'd" where
  "createNewPayment is_valid parse insertNewTransaction address a memo d =
     (if \<not> is_valid address then (Inl AddressInvalid, d)
      else
        (case validateAmount is_valid parse a of
           Inl e \<Rightarrow> (Inl e, d)
         | Inr _ \<Rightarrow>
             (case insertNewTransaction address a memo d of (r, d') \<Rightarrow> (Inr r, d'))))"

text \<open>
  The amounts that pass \<open>validateAmount\<close>, test by test: a number other than zero and
  \<open>NaN\<close>, of either sign; or an object whose \<open>value\<close> is truthy and converts to a number,
  whose \<open>currency\<close> is falsy or a string, and whose \<open>issuer\<close> is falsy or a valid address.
\<close>

fun accepted_amount :: "(prim \<Rightarrow> bool) \<Rightarrow> (string \<Rightarrow> jsnum) \<Rightarrow> amount \<Rightarrow> bool" where
  "accepted_amount is_valid parse (Primitive (Number (Num x))) = (x \<noteq> 0)"
| "accepted_amount is_valid parse (Primitive _) = False"
| "accepted_amount is_valid parse (Object obj) =
     (truthy (amount_value obj) \<and> to_number parse (amount_value obj) \<noteq> NaN
      \<and> (\<not> truthy (amount_currency obj) \<or> typeof (amount_currency obj) = T_string)
      \<and> (\<not> truthy (amount_issuer obj) \<or> is_valid (amount_issuer obj)))"

text \<open>
  The valid amounts in the words of the specification, with "positive" read as "other
  than zero": a numeric scalar other than zero, or a tuple whose value is numeric, whose
  currency, if present, is a string, and whose issuer, if present, is a valid address. A
  property is present when it is not \<open>undefined\<close>; a value is numeric when it is a number
  and not \<open>NaN\<close>.
\<close>

definition present :: "prim \<Rightarrow> bool" where
  "present p = (p \<noteq> Undefined)"

fun numeric :: "prim \<Rightarrow> bool" where
  "numeric (Number (Num x)) = True"
| "numeric _ = False"

fun valid_amount :: "(prim \<Rightarrow> bool) \<Rightarrow> amount \<Rightarrow> bool" where
  "valid_amount is_valid (Primitive (Number (Num x))) = (x \<noteq> 0)"
| "valid_amount is_valid (Primitive _) = False"
| "valid_amount is_valid (Object obj) =
     (numeric (amount_value obj)
      \<and> (present (amount_currency obj) \<longrightarrow> typeof (amount_currency obj) = T_string)
      \<and> (present (amount_issuer obj) \<longrightarrow> is_valid (amount_issuer obj)))"

text \<open>
  The tuples on which \<open>validateAmount\<close> decides by coercion rather than by the kind of the
  property: a \<open>value\<close> that is 0 (falsy, refused), \<open>true\<close> or a non-empty string (converted
  by \<open>Number\<close>); a \<open>currency\<close> that is present, falsy and not a string, or an \<open>issuer\<close> that is
  present and falsy (their tests are skipped).
\<close>

fun coerced_value :: "prim \<Rightarrow> bool" where
  "coerced_value (Number (Num x)) = (x = 0)"
| "coerced_value (Bool b) = b"
| "coerced_value (String s) = (s \<noteq> [])"
| "coerced_value _ = False"

definition coerced :: "amount \<Rightarrow> bool" where
  "coerced a =
     (case a of
        Primitive _ \<Rightarrow> False
      | Object obj \<Rightarrow>
          coerced_value (amount_value obj)
          \<or> (present (amount_currency obj) \<and> \<not> truthy (amount_currency obj)
              \<and> typeof (amount_currency obj) \<noteq> T_string)
          \<or> (present (amount_issuer obj) \<and> \<not> truthy (amount_issuer obj)))"

section \<open>Concrete worlds\<close>

text \<open>Three rows signed in a row; the ledger will answer Resign for the first.\<close>

definition w_resign :: sim where
  "w_resign =
     \<lparr>store = [mk_row 1 Signed (Some 100), mk_row 2 Signed (Some 101),
               mk_row 3 Signed (Some 102)],
      cursor = Some 103, ledger_nextSequence = 100, ledger_outcomes = [(1, Resign)]\<rparr>"

text \<open>Two rows submitted and not confirmed, one pending.\<close>

definition w_two_submitted :: sim where
  "w_two_submitted =
     \<lparr>store = [mk_row 1 Submitted (Some 7), mk_row 2 Submitted (Some 8),
               mk_row 3 Pending None],
      cursor = Some 9, ledger_nextSequence = 7, ledger_outcomes = []\<rparr>"


text \<open>A submitted row of sequence number 500, and a Signer that has no cursor yet.\<close>

definition w_db_500 :: sim where
  "w_db_500 =
     \<lparr>store = [mk_row 1 Submitted (Some 500)],
      cursor = None, ledger_nextSequence = 42, ledger_outcomes = []\<rparr>"

text \<open>A cold start: one pending row, no cursor, the ledger at 42.\<close>

definition w_cold :: sim where
  "w_cold =
     \<lparr>store = [mk_row 1 Pending None],
      cursor = None, ledger_nextSequence = 42, ledger_outcomes = []\<rparr>"

text \<open>A signed row for which the ledger will answer with a network fault.\<close>

definition w_network :: sim where
  "w_network =
     \<lparr>store = [mk_row 1 Signed (Some 100), mk_row 2 Pending None],
      cursor = Some 101, ledger_nextSequence = 100, ledger_outcomes = [(1, TransientNetwork)]\<rparr>"

text \<open>
  Row 5 is in error and rows 6 and 7 are signed behind it; in the second world the
  operator has aborted row 5.
\<close>

definition w_wedged :: sim where
  "w_wedged =
     \<lparr>store = [mk_row 5 (Error ''SigningError'' True) None, mk_row 6 Signed (Some 106),
               mk_row 7 Signed (Some 107)],
      cursor = Some 108, ledger_nextSequence = 105, ledger_outcomes = []\<rparr>"

definition w_aborted :: sim where
  "w_aborted =
     \<lparr>store = [mk_row 5 Aborted None, mk_row 6 Signed (Some 106),
               mk_row 7 Signed (Some 107)],
      cursor = Some 108, ledger_nextSequence = 105, ledger_outcomes = []\<rparr>"

text \<open>Errors that are neither network errors nor resign signals, with and without a row.\<close>

definition signing_error :: err where
  "signing_error =
     \<lparr>cls = OtherError, name = ''SigningError'', message = Text ''cannot sign'',
      transaction = Some \<lparr>txn_id = 5\<rparr>\<rparr>"

definition plain_error :: err where
  "plain_error =
     \<lparr>cls = OtherError, name = ''Error'', message = Text ''unexpected'',
      transaction = None\<rparr>"

text \<open>A signer that fails with a given error, in the environment of the specification.\<close>

definition db_error :: err where
  "db_error =
     \<lparr>cls = OtherError, name = ''DatabaseError'', message = Text ''connection lost'',
      transaction = None\<rparr>"

definition network_error :: err where
  "network_error =
     \<lparr>cls = NetworkError, name = ''NetworkError'', message = Text ''timeout'',
      transaction = None\<rparr>"

text \<open>Collaborators that reject, in the environment of the specification.\<close>

definition failing_isAborted :: "err \<Rightarrow> txn \<Rightarrow> sim \<Rightarrow> (err + bool) \<times> sim" where
  "failing_isAborted e t w = (Inl e, w)"

definition failing_markError ::
  "err \<Rightarrow> txn \<Rightarrow> string \<Rightarrow> bool \<Rightarrow> sim \<Rightarrow> (err + unit) \<times> sim" where
  "failing_markError e t kind fatal w = (Inl e, w)"

definition failing_getAccountInfo :: "err \<Rightarrow> string \<Rightarrow> sim \<Rightarrow> (err + int) \<times> sim" where
  "failing_getAccountInfo e address w = (Inl e, w)"




text \<open>Drivers whose \<open>fatalError\<close> slot is set.\<close>

definition s_aborted :: "sim payments" where
  "s_aborted = (new_Payments ''A'' w_aborted)\<lparr>fatalError := Some signing_error\<rparr>"

definition s_wedged :: "sim payments" where
  "s_wedged = (new_Payments ''A'' w_wedged)\<lparr>fatalError := Some signing_error\<rparr>"

definition s_wedged_plain :: "sim payments" where
  "s_wedged_plain = (new_Payments ''A'' w_wedged)\<lparr>fatalError := Some plain_error\<rparr>"

text \<open>
  An address check that accepts one address only, and a conversion of strings to numbers
  that reads no string as a number.
\<close>

definition only_address :: "string \<Rightarrow> prim \<Rightarrow> bool" where
  "only_address a p = (p = String a)"

definition no_parse :: "string \<Rightarrow> jsnum" where
  "no_parse s = NaN"

section \<open>Promise chains\<close>

lemma then_p_assoc: "then_p (then_p p f) g = then_p p (\<lambda>v. then_p (f v) g)"
  by (rule ext) (simp add: then_p_def split: prod.splits sum.splits)

lemma pipeline_afterFatalCheck:
  "pipeline E m = then_p (checkFatalError E) (\<lambda>_. afterFatalCheck E m)"
  by (simp add: pipeline_def afterFatalCheck_def)

lemma pipeline_beforeQuota:
  "pipeline E m =
     then_p (beforeQuota E) (\<lambda>_. then_p (calculateSigningLimit E m) (signAndSubmit E))"
  by (simp add: pipeline_def beforeQuota_def signAndSubmit_def [abs_def] then_p_assoc)

lemma pipeline_beforeSigning:
  "pipeline E m = then_p (beforeSigning E m) (signAndSubmit E)"
  by (simp add: pipeline_def beforeSigning_def signAndSubmit_def [abs_def] then_p_assoc)

section \<open>The re-entrancy guard\<close>

lemma settle_releases: "\<not> signingAndSubmitting (snd (settle E x))"
  by (simp add: settle_def split: prod.splits)

text \<open>
  Claim C2. A call of \<open>processPayments\<close> made while the guard is held (a previous tick is
  in progress) resolves at once and leaves the state as it is: no call to a collaborator
  is added to the trace and the world is untouched. A call that takes the guard has
  released it when its promise settles, whatever the collaborators answered, that is on
  normal completion, after a swallowed network error and on rejection alike.
\<close>

theorem C2_reentrancy_guard:
  "(signingAndSubmitting s \<longrightarrow> processPayments E mt s = (Inr (), s))
   \<and> (\<not> signingAndSubmitting s \<longrightarrow> \<not> signingAndSubmitting (snd (processPayments E mt s)))"
  by (simp add: processPayments_def resolve_def settle_releases)

theorem C2_reentrancy_guard_witness:
  "processPayments sim_env None ((new_Payments ''A'' w_resign)\<lparr>signingAndSubmitting := True\<rparr>)
     = (Inr (), (new_Payments ''A'' w_resign)\<lparr>signingAndSubmitting := True\<rparr>)
   \<and> \<not> signingAndSubmitting (snd (processPayments sim_env None (new_Payments ''A'' w_resign)))"
proof -
  have busy: "signingAndSubmitting ((new_Payments ''A'' w_resign)\<lparr>signingAndSubmitting := True\<rparr>)"
    by simp
  have idle: "\<not> signingAndSubmitting (new_Payments ''A'' w_resign)"
    by (simp add: new_Payments_def)
  from C2_reentrancy_guard [of "(new_Payments ''A'' w_resign)\<lparr>signingAndSubmitting := True\<rparr>" sim_env None] busy
  have a: "processPayments sim_env None ((new_Payments ''A'' w_resign)\<lparr>signingAndSubmitting := True\<rparr>)
     = (Inr (), (new_Payments ''A'' w_resign)\<lparr>signingAndSubmitting := True\<rparr>)"
    by blast
  from C2_reentrancy_guard [of "new_Payments ''A'' w_resign" sim_env None] idle
  have b: "\<not> signingAndSubmitting (snd (processPayments sim_env None (new_Payments ''A'' w_resign)))"
    by blast
  from a b show ?thesis by blast
qed

section \<open>The default limit\<close>

lemma falsy_effective_max: "falsy mt \<Longrightarrow> effective_max mt = DEFAULT_MAX_TRANSACTIONS"
  by (simp add: falsy_def effective_max_def split: option.splits)

lemma calculateSigningLimit_eq:
  "db_getSubmittedUnconfirmedTransactions E (world s) = (Inr rs, w) \<Longrightarrow>
   calculateSigningLimit E m s =
     (Inr (m - int (length rs)),
      s\<lparr>world := w, trace := trace s @ [GetSubmittedUnconfirmedTransactions]\<rparr>)"
  by (simp add: calculateSigningLimit_def then_p_def perform_def resolve_def)

text \<open>
  Claim C10. A falsy \<open>max_transactions\<close> (absent or null, which is \<open>None\<close>, or \<open>0\<close>) makes
  the tick the tick of the limit 10. Inside such a tick, once the fatal-error check and the
  sequence check have passed and the database has reported its submitted and unconfirmed
  rows, the signer is called with 10 minus their number (not with 0 minus their number),
  and the tick goes on from the signer's answer: to the submitter when the signer
  succeeded, to the handling of its error otherwise.
\<close>

theorem C10_falsy_max_is_default:
  assumes "falsy mt"
    and "\<not> signingAndSubmitting s"
    and "beforeQuota E (s\<lparr>signingAndSubmitting := True\<rparr>) = (Inr (), s2)"
    and "db_getSubmittedUnconfirmedTransactions E (world s2) = (Inr rs, w3)"
    and "signer_signTransactions E (10 - int (length rs)) w3 = (r, w4)"
  shows "processPayments E mt s = processPayments E (Some 10) s
         \<and> processPayments E mt s =
             settle E
               (case r of
                  Inl e \<Rightarrow>
                    (Inl e, s2\<lparr>world := w4,
                               trace := trace s2 @ [GetSubmittedUnconfirmedTransactions,
                                                    SignTransactions (10 - int (length rs))]\<rparr>)
                | Inr _ \<Rightarrow>
                    submitTransactions E
                      (s2\<lparr>world := w4,
                          trace := trace s2 @ [GetSubmittedUnconfirmedTransactions,
                                               SignTransactions (10 - int (length rs))]\<rparr>))"
proof -
  have ten: "effective_max (Some 10) = 10"
    by (simp add: effective_max_def)
  from assms(1) have dflt: "effective_max mt = 10"
    by (simp add: falsy_effective_max DEFAULT_MAX_TRANSACTIONS_def)
  have c: "calculateSigningLimit E 10 s2 =
             (Inr (10 - int (length rs)),
              s2\<lparr>world := w3, trace := trace s2 @ [GetSubmittedUnconfirmedTransactions]\<rparr>)"
    using assms(4) by (rule calculateSigningLimit_eq)
  have e: "processPayments E mt s = processPayments E (Some 10) s"
    by (simp add: processPayments_def dflt ten)
  have "processPayments E mt s =
             settle E
               (case r of
                  Inl e \<Rightarrow>
                    (Inl e, s2\<lparr>world := w4,
                               trace := trace s2 @ [GetSubmittedUnconfirmedTransactions,
                                                    SignTransactions (10 - int (length rs))]\<rparr>)
                | Inr _ \<Rightarrow>
                    submitTransactions E
                      (s2\<lparr>world := w4,
                          trace := trace s2 @ [GetSubmittedUnconfirmedTransactions,
                                               SignTransactions (10 - int (length rs))]\<rparr>))"
    using assms(2,5)
    by (cases r)
      (simp_all add: processPayments_def dflt pipeline_beforeQuota then_p_def assms(3) c
        signAndSubmit_def signTransactions_def perform_def)
  with e show ?thesis
    by (rule conjI)
qed

theorem C10_falsy_max_is_default_witness:
  "falsy (Some 0)
   \<and> processPayments sim_env (Some 0) (new_Payments ''A'' w_two_submitted)
       = processPayments sim_env (Some 10) (new_Payments ''A'' w_two_submitted)
   \<and> trace (snd (processPayments sim_env (Some 0) (new_Payments ''A'' w_two_submitted)))
     = [GetSequenceNumber, GetSubmittedUnconfirmedTransactions, SignTransactions 8,
        SubmitTransactions]
   \<and> map row_state (store (world (snd (processPayments sim_env (Some 0)
        (new_Payments ''A'' w_two_submitted))))) = [Submitted, Submitted, Submitted]"
proof -
  let ?s = "new_Payments ''A'' w_two_submitted"
  let ?s2 = "snd (beforeQuota sim_env (?s\<lparr>signingAndSubmitting := True\<rparr>))"
  let ?rs = "[\<lparr>txn_id = 1\<rparr>, \<lparr>txn_id = 2\<rparr>]"
  let ?w3 = "snd (Store_listSubmittedUnconfirmed (world ?s2))"
  let ?w4 = "snd (Signer_signTransactions 8 ?w3)"
  have f: "falsy (Some 0)"
    by (simp add: falsy_def)
  have a1: "\<not> signingAndSubmitting ?s"
    by (simp add: new_Payments_def)
  have a2: "beforeQuota sim_env (?s\<lparr>signingAndSubmitting := True\<rparr>) = (Inr (), ?s2)"
    by code_simp
  have a3: "db_getSubmittedUnconfirmedTransactions sim_env (world ?s2) = (Inr ?rs, ?w3)"
    by code_simp
  have a4: "signer_signTransactions sim_env (10 - int (length ?rs)) ?w3 = (Inr (), ?w4)"
    by code_simp
  note A = C10_falsy_max_is_default [OF f a1 a2 a3 a4]
  let ?R = "settle sim_env
              (case (Inr () :: err + unit) of
                 Inl e \<Rightarrow>
                   (Inl e, ?s2\<lparr>world := ?w4,
                              trace := trace ?s2 @ [GetSubmittedUnconfirmedTransactions,
                                                   SignTransactions (10 - int (length ?rs))]\<rparr>)
               | Inr _ \<Rightarrow>
                   submitTransactions sim_env
                     (?s2\<lparr>world := ?w4,
                         trace := trace ?s2 @ [GetSubmittedUnconfirmedTransactions,
                                              SignTransactions (10 - int (length ?rs))]\<rparr>))"
  have ev: "trace (snd ?R)
          = [GetSequenceNumber, GetSubmittedUnconfirmedTransactions, SignTransactions 8,
             SubmitTransactions]
        \<and> map row_state (store (world (snd ?R))) = [Submitted, Submitted, Submitted]"
    by code_simp
  have t: "processPayments sim_env (Some 0) ?s = ?R"
    by (rule A [THEN conjunct2])
  from ev have "trace (snd (processPayments sim_env (Some 0) ?s))
          = [GetSequenceNumber, GetSubmittedUnconfirmedTransactions, SignTransactions 8,
             SubmitTransactions]
        \<and> map row_state (store (world (snd (processPayments sim_env (Some 0) ?s))))
          = [Submitted, Submitted, Submitted]"
    by (subst (1 2) t)
  with f A [THEN conjunct1] show ?thesis
    by blast
qed

section \<open>Resign recovery\<close>

lemma handleResignError_eq:
  assumes "db_clearSignedTransactionsFromId E (id_plus_one m) (world s) = (Inr (), w1)"
    and "network_getAccountInfo E (stellarAddress s) w1 = (Inr n, w2)"
    and "signer_setSequenceNumber E n w2 = (Inr (), w3)"
  shows "handleResignError E m s =
           (Inr (), s\<lparr>world := w3,
                      trace := trace s @ [ClearSignedTransactionsFromId (id_plus_one m),
                                          GetAccountInfo (stellarAddress s),
                                          SetSequenceNumber n]\<rparr>)"
  using assms
  by (simp add: handleResignError_def getLatestSequenceNumberFromNetwork_def then_p_def
      perform_def)

lemma clear_demotes_later:
  "map (\<lambda>x. if i + 1 \<le> row_id x \<and> (row_state x = Signed \<or> row_state x = Submitted)
            then demote x else x) rs
   = map (\<lambda>x. if i < row_id x \<and> (row_state x = Signed \<or> row_state x = Submitted)
              then demote x else x) rs"
  by (rule map_cong) auto

lemma handleResignError_sim:
  "handleResignError sim_env (Payload r) t =
     (Inr (),
      t\<lparr>world := (world t)
           \<lparr>store := map (\<lambda>x. if txn_id r < row_id x
                                   \<and> (row_state x = Signed \<or> row_state x = Submitted)
                                then demote x else x) (store (world t)),
            cursor := Some (ledger_nextSequence (world t))\<rparr>,
        trace := trace t @ [ClearSignedTransactionsFromId (Some (txn_id r + 1)),
                            GetAccountInfo (stellarAddress t),
                            SetSequenceNumber (ledger_nextSequence (world t))]\<rparr>)"
  by (simp add: handleResignError_def getLatestSequenceNumberFromNetwork_def then_p_def
      perform_def id_plus_one_def sim_env_def Store_clearSignedFrom_def
      Ledger_getAccountInfo_def Signer_setSequence_def clear_demotes_later)

text \<open>
  Claim C1, as the code has it. Resign recovery on an offending row \<open>r\<close> makes three calls
  and no other: it clears the signed rows from \<open>r.id + 1\<close>, asks the network for the
  account's sequence number and sets the Signer's cursor to the answer. It takes the
  transaction only, not the outcome that triggered it, so it does the same after a Resign
  as after an operator's abort. On the Store, ledger and Signer of the specification it
  succeeds in every world, and its whole effect is this: every row of id above \<open>r.id\<close>
  that is Signed or Submitted is demoted (Pending, sequence and artifact cleared), every
  other row is as it was, and the cursor is the ledger's next sequence number. The row
  \<open>r\<close> and the rows before it are among the rows left as they were.
\<close>

theorem C1_resign_recovery:
  assumes "db_clearSignedTransactionsFromId E (Some (txn_id r + 1)) (world s) = (Inr (), w1)"
    and "network_getAccountInfo E (stellarAddress s) w1 = (Inr n, w2)"
    and "signer_setSequenceNumber E n w2 = (Inr (), w3)"
  shows "handleResignError E (Payload r) s =
           (Inr (), s\<lparr>world := w3,
                      trace := trace s @ [ClearSignedTransactionsFromId (Some (txn_id r + 1)),
                                          GetAccountInfo (stellarAddress s),
                                          SetSequenceNumber n]\<rparr>)
         \<and> handleResignError sim_env (Payload r) t =
           (Inr (),
            t\<lparr>world := (world t)
                 \<lparr>store := map (\<lambda>x. if txn_id r < row_id x
                                         \<and> (row_state x = Signed \<or> row_state x = Submitted)
                                      then demote x else x) (store (world t)),
                  cursor := Some (ledger_nextSequence (world t))\<rparr>,
              trace := trace t @ [ClearSignedTransactionsFromId (Some (txn_id r + 1)),
                                  GetAccountInfo (stellarAddress t),
                                  SetSequenceNumber (ledger_nextSequence (world t))]\<rparr>)
         \<and> filter (\<lambda>x. row_id x \<le> txn_id r)
             (store (world (snd (handleResignError sim_env (Payload r) t))))
           = filter (\<lambda>x. row_id x \<le> txn_id r) (store (world t))"
proof -
  have i: "id_plus_one (Payload r) = Some (txn_id r + 1)"
    by (simp add: id_plus_one_def)
  from assms have a: "handleResignError E (Payload r) s =
           (Inr (), s\<lparr>world := w3,
                      trace := trace s @ [ClearSignedTransactionsFromId (Some (txn_id r + 1)),
                                          GetAccountInfo (stellarAddress s),
                                          SetSequenceNumber n]\<rparr>)"
    using handleResignError_eq [of E "Payload r" s w1 n w2 w3] by (simp add: i)
  have k: "filter (\<lambda>x. row_id x \<le> txn_id r)
             (map (\<lambda>x. if txn_id r < row_id x
                          \<and> (row_state x = Signed \<or> row_state x = Submitted)
                       then demote x else x) rs)
           = filter (\<lambda>x. row_id x \<le> txn_id r) rs" for rs
    by (induction rs) (auto simp: demote_def)
  have c: "filter (\<lambda>x. row_id x \<le> txn_id r)
             (store (world (snd (handleResignError sim_env (Payload r) t))))
           = filter (\<lambda>x. row_id x \<le> txn_id r) (store (world t))"
    by (simp add: handleResignError_sim k)
  from a handleResignError_sim [of r t] c show ?thesis
    by (intro conjI)
qed

theorem C1_resign_recovery_witness:
  "map row_state
     (store (world (snd (handleResignError sim_env (Payload \<lparr>txn_id = 1\<rparr>)
                           (new_Payments ''A'' w_resign)))))
     = [Signed, Pending, Pending]
   \<and> map row_sequence
     (store (world (snd (handleResignError sim_env (Payload \<lparr>txn_id = 1\<rparr>)
                           (new_Payments ''A'' w_resign)))))
     = [Some 100, None, None]
   \<and> cursor (world (snd (handleResignError sim_env (Payload \<lparr>txn_id = 1\<rparr>)
                           (new_Payments ''A'' w_resign)))) = Some 100
   \<and> trace (snd (handleResignError sim_env (Payload \<lparr>txn_id = 1\<rparr>)
                           (new_Payments ''A'' w_resign)))
     = [ClearSignedTransactionsFromId (Some 2), GetAccountInfo ''A'', SetSequenceNumber 100]"
proof -
  let ?w1 = "w_resign\<lparr>store := [mk_row 1 Signed (Some 100), mk_row 2 Pending None, mk_row 3 Pending None]\<rparr>"
  let ?s = "new_Payments ''A'' w_resign"
  have a: "db_clearSignedTransactionsFromId sim_env (Some (txn_id \<lparr>txn_id = 1\<rparr> + 1)) (world ?s) = (Inr (), ?w1)"
    by (simp add: sim_env_def new_Payments_def w_resign_def Store_clearSignedFrom_def mk_row_def demote_def)
  have b: "network_getAccountInfo sim_env (stellarAddress ?s) ?w1 = (Inr 100, ?w1)"
    by (simp add: sim_env_def Ledger_getAccountInfo_def w_resign_def)
  have c: "signer_setSequenceNumber sim_env 100 ?w1 = (Inr (), ?w1\<lparr>cursor := Some 100\<rparr>)"
    by (simp add: sim_env_def Signer_setSequence_def)
  from C1_resign_recovery [OF a b c, THEN conjunct1]
  show ?thesis
    by (simp add: new_Payments_def mk_row_def w_resign_def)
qed

text \<open>
  Claim C1 as it is written fails. With three signed rows and a ledger that answers Resign
  for the first, the submitter raises the resign signal for row 1; when the tick and the
  recovery it started have finished, rows 2 and 3 are Pending again and row 1 is still
  Signed with its old sequence number.
\<close>

theorem C1_offending_row_not_demoted:
  "fst (Submitter_submitTransactions w_resign)
     = Inl \<lparr>cls = ResignTransactionError, name = ''ResignTransactionError'',
            message = Payload \<lparr>txn_id = 1\<rparr>, transaction = None\<rparr>
   \<and> detached (advance sim_env (advance sim_env
        (snd (processPayments sim_env None (new_Payments ''A'' w_resign))))) = []
   \<and> map row_state
       (store (world (advance sim_env (advance sim_env
          (snd (processPayments sim_env None (new_Payments ''A'' w_resign)))))))
     = [Signed, Pending, Pending]
   \<and> map row_sequence
       (store (world (advance sim_env (advance sim_env
          (snd (processPayments sim_env None (new_Payments ''A'' w_resign)))))))
     = [Some 100, None, None]"
  by code_simp

section \<open>Sequence initialization\<close>

lemma initSequenceNumber_from_db:
  assumes "db_getHighestSequenceNumberFromTransactions E (world s) = (Inr (Some h), w1)"
    and "h \<noteq> 0"
    and "signer_setSequenceNumber E (h + 1) w1 = (Inr (), w2)"
  shows "initSequenceNumber E s =
           (Inr (), s\<lparr>world := w2,
                      trace := trace s @ [GetHighestSequenceNumberFromTransactions,
                                          SetSequenceNumber (h + 1)]\<rparr>)"
  using assms
  by (simp add: initSequenceNumber_def then_p_def perform_def resolve_def)

lemma initSequenceNumber_from_network:
  assumes "db_getHighestSequenceNumberFromTransactions E (world s) = (Inr hv, w1)"
    and "falsy hv"
    and "network_getAccountInfo E (stellarAddress s) w1 = (Inr n, w2)"
    and "signer_setSequenceNumber E n w2 = (Inr (), w3)"
  shows "initSequenceNumber E s =
           (Inr (), s\<lparr>world := w3,
                      trace := trace s @ [GetHighestSequenceNumberFromTransactions,
                                          GetAccountInfo (stellarAddress s),
                                          SetSequenceNumber n]\<rparr>)"
  using assms
  by (simp add: initSequenceNumber_def getLatestSequenceNumberFromNetwork_def then_p_def
      perform_def falsy_def split: option.splits)

lemma ensureSequenceNumber_init:
  assumes "signer_getSequenceNumber E (world s) = (Inr c, w0)" and "falsy c"
  shows "ensureSequenceNumber E s =
           initSequenceNumber E (s\<lparr>world := w0, trace := trace s @ [GetSequenceNumber]\<rparr>)"
  using assms by (simp add: ensureSequenceNumber_def then_p_def perform_def)

lemma ensureSequenceNumber_set:
  assumes "signer_getSequenceNumber E (world s) = (Inr c, w0)" and "\<not> falsy c"
  shows "ensureSequenceNumber E s =
           (Inr (), s\<lparr>world := w0, trace := trace s @ [GetSequenceNumber]\<rparr>)"
  using assms by (simp add: ensureSequenceNumber_def then_p_def perform_def resolve_def)

text \<open>
  Away from zero, sequence initialization is what its comments say. When the cursor is
  falsy: a highest sequence number in the database other than 0 gives the cursor that
  number plus one, with no call to the network; none, or 0, gives the cursor the number
  the network reports. A cursor other than 0 is left alone.
\<close>

lemma ensureSequenceNumber_cases:
  assumes "signer_getSequenceNumber E (world s) = (Inr c, w0)"
  shows "(falsy c \<and> db_getHighestSequenceNumberFromTransactions E w0 = (Inr (Some h), w1)
            \<and> h \<noteq> 0 \<and> signer_setSequenceNumber E (h + 1) w1 = (Inr (), w2)
          \<longrightarrow> ensureSequenceNumber E s =
                (Inr (), s\<lparr>world := w2,
                           trace := trace s @ [GetSequenceNumber,
                                               GetHighestSequenceNumberFromTransactions,
                                               SetSequenceNumber (h + 1)]\<rparr>))
       \<and> (falsy c \<and> db_getHighestSequenceNumberFromTransactions E w0 = (Inr hv, w1')
            \<and> falsy hv \<and> network_getAccountInfo E (stellarAddress s) w1' = (Inr n, w2')
            \<and> signer_setSequenceNumber E n w2' = (Inr (), w3')
          \<longrightarrow> ensureSequenceNumber E s =
                (Inr (), s\<lparr>world := w3',
                           trace := trace s @ [GetSequenceNumber,
                                               GetHighestSequenceNumberFromTransactions,
                                               GetAccountInfo (stellarAddress s),
                                               SetSequenceNumber n]\<rparr>))
       \<and> (\<not> falsy c
          \<longrightarrow> ensureSequenceNumber E s =
                (Inr (), s\<lparr>world := w0, trace := trace s @ [GetSequenceNumber]\<rparr>))"
proof (intro conjI impI)
  assume a: "falsy c \<and> db_getHighestSequenceNumberFromTransactions E w0 = (Inr (Some h), w1)
            \<and> h \<noteq> 0 \<and> signer_setSequenceNumber E (h + 1) w1 = (Inr (), w2)"
  let ?s0 = "s\<lparr>world := w0, trace := trace s @ [GetSequenceNumber]\<rparr>"
  from a have a1: "db_getHighestSequenceNumberFromTransactions E (world ?s0) = (Inr (Some h), w1)"
    and a2: "h \<noteq> 0" and a3: "signer_setSequenceNumber E (h + 1) w1 = (Inr (), w2)"
    by simp_all
  note initSequenceNumber_from_db [OF a1 a2 a3]
  with a assms show "ensureSequenceNumber E s =
                (Inr (), s\<lparr>world := w2,
                           trace := trace s @ [GetSequenceNumber,
                                               GetHighestSequenceNumberFromTransactions,
                                               SetSequenceNumber (h + 1)]\<rparr>)"
    by (simp add: ensureSequenceNumber_init)
next
  assume a: "falsy c \<and> db_getHighestSequenceNumberFromTransactions E w0 = (Inr hv, w1')
            \<and> falsy hv \<and> network_getAccountInfo E (stellarAddress s) w1' = (Inr n, w2')
            \<and> signer_setSequenceNumber E n w2' = (Inr (), w3')"
  let ?s0 = "s\<lparr>world := w0, trace := trace s @ [GetSequenceNumber]\<rparr>"
  from a have a1: "db_getHighestSequenceNumberFromTransactions E (world ?s0) = (Inr hv, w1')"
    and a2: "falsy hv"
    and a3: "network_getAccountInfo E (stellarAddress ?s0) w1' = (Inr n, w2')"
    and a4: "signer_setSequenceNumber E n w2' = (Inr (), w3')"
    by simp_all
  note initSequenceNumber_from_network [OF a1 a2 a3 a4]
  with a assms show "ensureSequenceNumber E s =
                (Inr (), s\<lparr>world := w3',
                           trace := trace s @ [GetSequenceNumber,
                                               GetHighestSequenceNumberFromTransactions,
                                               GetAccountInfo (stellarAddress s),
                                               SetSequenceNumber n]\<rparr>)"
    by (simp add: ensureSequenceNumber_init)
next
  assume "\<not> falsy c"
  with assms show "ensureSequenceNumber E s =
                (Inr (), s\<lparr>world := w0, trace := trace s @ [GetSequenceNumber]\<rparr>)"
    by (simp add: ensureSequenceNumber_set)
qed

lemma sequence_initialization_scenarios:
  "trace (snd (ensureSequenceNumber sim_env (new_Payments ''A'' w_db_500)))
     = [GetSequenceNumber, GetHighestSequenceNumberFromTransactions, SetSequenceNumber 501]
   \<and> cursor (world (snd (ensureSequenceNumber sim_env (new_Payments ''A'' w_db_500)))) = Some 501
   \<and> trace (snd (ensureSequenceNumber sim_env (new_Payments ''A'' w_cold)))
     = [GetSequenceNumber, GetHighestSequenceNumberFromTransactions, GetAccountInfo ''A'',
        SetSequenceNumber 42]
   \<and> cursor (world (snd (ensureSequenceNumber sim_env (new_Payments ''A'' w_cold)))) = Some 42
   \<and> trace (snd (ensureSequenceNumber sim_env (new_Payments ''A'' w_resign)))
     = [GetSequenceNumber]"
  by code_simp


section \<open>The fatal-error check and fatal promotion\<close>

lemma checkFatalError_no_transaction:
  assumes "fatalError s = Some fe" and "transaction fe = None"
  shows "checkFatalError E s =
           (Inl fe, s\<lparr>trace := trace s @ [LogError ''No transaction for this error'',
                                            LogError ''There's been a fatal error, aborting'']\<rparr>)"
  using assms
  by (simp add: checkFatalError_def then_p_def log_error_def resolve_def reject_def)

lemma checkFatalError_not_aborted:
  assumes "fatalError s = Some fe" and "transaction fe = Some t"
    and "db_isAborted E t (world s) = (Inr False, w1)"
  shows "checkFatalError E s =
           (Inl fe, s\<lparr>world := w1,
                      trace := trace s @ [IsAborted t,
                                          LogError ''There's been a fatal error, aborting'']\<rparr>)"
  using assms
  by (simp add: checkFatalError_def then_p_def perform_def log_error_def reject_def)

lemma checkFatalError_aborted:
  assumes "fatalError s = Some fe" and "transaction fe = Some t"
    and "db_isAborted E t (world s) = (Inr True, w1)"
  shows "checkFatalError E s =
           handleResignError E (Payload t)
             (s\<lparr>fatalError := None, world := w1, trace := trace s @ [IsAborted t]\<rparr>)"
  using assms
  by (cases s) (simp add: checkFatalError_def then_p_def perform_def)



lemma settle_Inr: "settle E (Inr v, s) = (Inr (), s\<lparr>signingAndSubmitting := False\<rparr>)"
  by (simp add: settle_def)

lemma settle_network:
  "cls e = NetworkError \<Longrightarrow>
   settle E (Inl e, s) =
     (Inr (), s\<lparr>trace := trace s @ [LogError ''Network error''],
                signingAndSubmitting := False\<rparr>)"
  by (simp add: settle_def then_p_def log_error_def resolve_def)

lemma settle_fatal:
  "cls e \<noteq> NetworkError \<Longrightarrow> handleFatalError E e s = (r, s') \<Longrightarrow>
   settle E (Inl e, s) = (r, s'\<lparr>signingAndSubmitting := False\<rparr>)"
  by (simp add: settle_def)

lemma fatal_tick_no_transaction:
  assumes "\<not> signingAndSubmitting s" and "fatalError s = Some fe"
    and "cls fe \<noteq> NetworkError" and "transaction fe = None"
  shows "processPayments E mt s =
           (Inl fe, s\<lparr>trace := trace s @ [LogError ''No transaction for this error'',
                                            LogError ''There's been a fatal error, aborting'',
                                            LogError ''Fatal error'']\<rparr>)"
  using assms
  by (cases s)
    (simp add: processPayments_def pipeline_afterFatalCheck settle_def checkFatalError_def
      handleFatalError_def then_p_def log_error_def resolve_def reject_def)

lemma fatal_tick_not_aborted:
  assumes "\<not> signingAndSubmitting s" and "fatalError s = Some fe"
    and "cls fe \<noteq> NetworkError" and "transaction fe = Some t"
    and "db_isAborted E t (world s) = (Inr False, w1)"
    and "db_markTransactionError E t (name fe) True w1 = (Inr (), w2)"
  shows "processPayments E mt s =
           (Inl fe, s\<lparr>world := w2,
                      trace := trace s @ [IsAborted t,
                                          LogError ''There's been a fatal error, aborting'',
                                          LogError ''Fatal error'',
                                          MarkTransactionError t (name fe) True]\<rparr>)"
  using assms
  by (cases s)
    (simp add: processPayments_def pipeline_afterFatalCheck settle_def checkFatalError_def
      handleFatalError_def then_p_def perform_def log_error_def resolve_def reject_def)

lemma fatal_tick_aborted:
  assumes "\<not> signingAndSubmitting s" and "fatalError s = Some fe"
    and "transaction fe = Some t"
    and "db_isAborted E t (world s) = (Inr True, w1)"
    and "db_clearSignedTransactionsFromId E (Some (txn_id t + 1)) w1 = (Inr (), w2)"
    and "network_getAccountInfo E (stellarAddress s) w2 = (Inr n, w3)"
    and "signer_setSequenceNumber E n w3 = (Inr (), w4)"
  shows "processPayments E mt s =
           settle E (afterFatalCheck E (effective_max mt)
             (s\<lparr>signingAndSubmitting := True, fatalError := None, world := w4,
                trace := trace s @ [IsAborted t,
                                    ClearSignedTransactionsFromId (Some (txn_id t + 1)),
                                    GetAccountInfo (stellarAddress s),
                                    SetSequenceNumber n]\<rparr>))"
  using assms
  by (cases s)
    (simp add: processPayments_def pipeline_afterFatalCheck checkFatalError_def
      handleResignError_def getLatestSequenceNumberFromNetwork_def id_plus_one_def
      then_p_def perform_def)

lemma handleResignError_fatalError:
  "fatalError (snd (handleResignError E m s)) = fatalError s"
  by (simp add: handleResignError_def getLatestSequenceNumberFromNetwork_def then_p_def
      perform_def split: prod.splits sum.splits)

lemma ensureSequenceNumber_fatalError:
  "fatalError (snd (ensureSequenceNumber E s)) = fatalError s"
  by (auto simp: ensureSequenceNumber_def initSequenceNumber_def
      getLatestSequenceNumberFromNetwork_def then_p_def perform_def resolve_def
      split: prod.splits sum.splits option.splits)

lemma calculateSigningLimit_fatalError:
  "fatalError (snd (calculateSigningLimit E m s)) = fatalError s"
  by (simp add: calculateSigningLimit_def then_p_def perform_def resolve_def
      split: prod.splits sum.splits)

lemma advance_fatalError: "fatalError (advance E s) = fatalError s"
  by (simp add: advance_def split: list.splits recovery.splits prod.splits sum.splits)

lemma advances_fatalError: "fatalError (advances E k s) = fatalError s"
  by (induction k arbitrary: s) (simp_all add: advance_fatalError)

lemma advance_guard: "signingAndSubmitting (advance E s) = signingAndSubmitting s"
  by (simp add: advance_def split: list.splits recovery.splits prod.splits sum.splits)

lemma advances_guard: "signingAndSubmitting (advances E k s) = signingAndSubmitting s"
  by (induction k arbitrary: s) (simp_all add: advance_guard)

lemma signAndSubmit_fatalError:
  "fatalError (snd (signAndSubmit E l s)) = fatalError s"
  by (simp add: signAndSubmit_def signTransactions_def submitTransactions_def then_p_def
      perform_def advances_fatalError startResignError_def split: prod.splits sum.splits)

lemma checkFatalError_ok_clears:
  assumes "checkFatalError E s = (Inr v, s')"
  shows "fatalError s' = None"
proof (cases "fatalError s")
  case None
  with assms show ?thesis
    by (simp add: checkFatalError_def resolve_def)
next
  case (Some fe)
  show ?thesis
  proof (cases "transaction fe")
    case None
    with Some assms show ?thesis
      by (simp add: checkFatalError_no_transaction)
  next
    case (Some t)
    obtain r w1 where ab: "db_isAborted E t (world s) = (r, w1)"
      by (cases "db_isAborted E t (world s)")
    show ?thesis
    proof (cases r)
      case (Inl e)
      with ab Some \<open>fatalError s = Some fe\<close> assms show ?thesis
        by (simp add: checkFatalError_def then_p_def perform_def)
    next
      case (Inr b)
      show ?thesis
      proof (cases b)
        case True
        with Inr ab Some \<open>fatalError s = Some fe\<close> assms
        have "handleResignError E (Payload t)
                (s\<lparr>fatalError := None, world := w1, trace := trace s @ [IsAborted t]\<rparr>)
              = (Inr v, s')"
          by (simp add: checkFatalError_aborted)
        then have "fatalError s' =
            fatalError (s\<lparr>fatalError := None, world := w1, trace := trace s @ [IsAborted t]\<rparr>)"
          using handleResignError_fatalError [of E "Payload t"
              "s\<lparr>fatalError := None, world := w1, trace := trace s @ [IsAborted t]\<rparr>"]
          by simp
        then show ?thesis by simp
      next
        case False
        with Inr ab Some \<open>fatalError s = Some fe\<close> assms show ?thesis
          by (simp add: checkFatalError_not_aborted)
      qed
    qed
  qed
qed

lemma beforeSigning_ok_clears:
  assumes "beforeSigning E m s = (Inr l, s')"
  shows "fatalError s' = None"
proof -
  obtain r1 s1 where c: "checkFatalError E s = (r1, s1)"
    by (cases "checkFatalError E s")
  show ?thesis
  proof (cases r1)
    case (Inl e)
    with c assms show ?thesis
      by (simp add: beforeSigning_def then_p_def)
  next
    case (Inr v)
    with c have f1: "fatalError s1 = None"
      by (simp add: checkFatalError_ok_clears)
    obtain r2 s2 where e: "ensureSequenceNumber E s1 = (r2, s2)"
      by (cases "ensureSequenceNumber E s1")
    with f1 have f2: "fatalError s2 = None"
      using ensureSequenceNumber_fatalError [of E s1] by simp
    show ?thesis
    proof (cases r2)
      case (Inl e')
      with Inr c e assms show ?thesis
        by (simp add: beforeSigning_def then_p_def)
    next
      case (Inr v')
      with \<open>r1 = Inr v\<close> c e assms have "calculateSigningLimit E m s2 = (Inr l, s')"
        by (simp add: beforeSigning_def then_p_def)
      then have "fatalError s' = fatalError s2"
        using calculateSigningLimit_fatalError [of E m s2] by simp
      with f2 show ?thesis by simp
    qed
  qed
qed

lemma checkFatalError_fatalError:
  "fatalError (snd (checkFatalError E s)) = fatalError s
   \<or> fatalError (snd (checkFatalError E s)) = None"
  by (auto simp: checkFatalError_def then_p_def perform_def log_error_def resolve_def
      reject_def handleResignError_fatalError
      split: option.splits prod.splits sum.splits if_splits)

lemma afterFatalCheck_fatalError:
  "fatalError (snd (afterFatalCheck E m s)) = fatalError s"
proof -
  have eq: "afterFatalCheck E m =
      then_p (ensureSequenceNumber E)
        (\<lambda>_. then_p (calculateSigningLimit E m) (signAndSubmit E))"
    by (simp add: afterFatalCheck_def signAndSubmit_def [abs_def])
  obtain r1 s1 where e: "ensureSequenceNumber E s = (r1, s1)"
    by (cases "ensureSequenceNumber E s")
  then have f1: "fatalError s1 = fatalError s"
    using ensureSequenceNumber_fatalError [of E s] by simp
  obtain r2 s2 where c: "calculateSigningLimit E m s1 = (r2, s2)"
    by (cases "calculateSigningLimit E m s1")
  then have f2: "fatalError s2 = fatalError s1"
    using calculateSigningLimit_fatalError [of E m s1] by simp
  show ?thesis
    using e c f1 f2 signAndSubmit_fatalError [of E _ s2]
    by (cases r1; cases r2) (simp_all add: eq then_p_def)
qed

lemma pipeline_fatalError:
  "fatalError (snd (pipeline E m s)) = fatalError s
   \<or> fatalError (snd (pipeline E m s)) = None"
proof -
  obtain r1 s1 where c: "checkFatalError E s = (r1, s1)"
    by (cases "checkFatalError E s")
  then have f1: "fatalError s1 = fatalError s \<or> fatalError s1 = None"
    using checkFatalError_fatalError [of E s] by simp
  show ?thesis
    using c f1 afterFatalCheck_fatalError [of E m s1]
    by (cases r1) (auto simp: pipeline_afterFatalCheck then_p_def)
qed

lemma handleFatalError_sets:
  "fatalError (snd (handleFatalError E e s)) = Some e"
  by (simp add: handleFatalError_def then_p_def log_error_def perform_def resolve_def
      reject_def split: option.splits prod.splits sum.splits)

lemma fatalError_never_network:
  assumes "fatalError s = None \<or> (\<exists>fe. fatalError s = Some fe \<and> cls fe \<noteq> NetworkError)"
  shows "fatalError (snd (processPayments E mt s)) = None
         \<or> (\<exists>fe. fatalError (snd (processPayments E mt s)) = Some fe \<and> cls fe \<noteq> NetworkError)"
proof (cases "signingAndSubmitting s")
  case True
  with assms show ?thesis
    by (simp add: processPayments_def resolve_def)
next
  case False
  let ?s1 = "s\<lparr>signingAndSubmitting := True\<rparr>"
  obtain r s2 where p: "pipeline E (effective_max mt) ?s1 = (r, s2)"
    by (cases "pipeline E (effective_max mt) ?s1")
  have f2: "fatalError s2 = fatalError s \<or> fatalError s2 = None"
    using pipeline_fatalError [of E "effective_max mt" ?s1] p by simp
  show ?thesis
  proof (cases r)
    case (Inr v)
    with False p f2 assms show ?thesis
      by (auto simp: processPayments_def settle_Inr)
  next
    case (Inl e)
    show ?thesis
    proof (cases "cls e = NetworkError")
      case True
      with Inl False p f2 assms show ?thesis
        by (auto simp: processPayments_def settle_network)
    next
      case ne: False
      obtain r' s3 where h: "handleFatalError E e s2 = (r', s3)"
        by (cases "handleFatalError E e s2")
      then have "fatalError s3 = Some e"
        using handleFatalError_sets [of E e s2] by simp
      with ne Inl False p show ?thesis
        by (simp add: processPayments_def settle_fatal [OF ne h])
    qed
  qed
qed

lemma checkFatalError_wedged:
  assumes "fatalError s = Some fe"
    and "transaction fe = None
         \<or> (\<exists>t. transaction fe = Some t \<and> fst (db_isAborted E t (world s)) \<noteq> Inr True)"
  shows "\<exists>e s'. checkFatalError E s = (Inl e, s')
           \<and> filter is_sign_or_submit (trace s') = filter is_sign_or_submit (trace s)"
  using assms
  by (auto simp: checkFatalError_def then_p_def perform_def log_error_def resolve_def
      reject_def split: option.splits prod.splits sum.splits)

lemma settle_rejected_no_signing:
  "filter is_sign_or_submit (trace (snd (settle E (Inl e, s))))
   = filter is_sign_or_submit (trace s)"
  by (auto simp: settle_def handleFatalError_def then_p_def perform_def log_error_def
      resolve_def reject_def split: option.splits prod.splits sum.splits)

lemma wedged_tick_no_signing:
  assumes "\<not> signingAndSubmitting s" and "fatalError s = Some fe"
    and "transaction fe = None
         \<or> (\<exists>t. transaction fe = Some t \<and> fst (db_isAborted E t (world s)) \<noteq> Inr True)"
  shows "filter is_sign_or_submit (trace (snd (processPayments E mt s)))
         = filter is_sign_or_submit (trace s)"
proof -
  let ?s1 = "s\<lparr>signingAndSubmitting := True\<rparr>"
  from assms(2,3) obtain e s' where c: "checkFatalError E ?s1 = (Inl e, s')"
    and f: "filter is_sign_or_submit (trace s') = filter is_sign_or_submit (trace ?s1)"
    using checkFatalError_wedged [of ?s1 fe E] by auto
  have p: "pipeline E (effective_max mt) ?s1 = (Inl e, s')"
    by (simp add: pipeline_afterFatalCheck then_p_def c)
  show ?thesis
    using assms(1) f by (simp add: processPayments_def p settle_rejected_no_signing)
qed

text \<open>
  Claim C4, as the code has it. A tick that starts with \<open>fatalError\<close> set and takes the
  guard. If the error carries a transaction and the database reports it aborted, the
  driver clears \<open>fatalError\<close> and runs resign recovery on that transaction (clear from
  \<open>id + 1\<close>, ask the network, set the cursor), and the rest of the tick is chained to
  the recovery; when the three calls of the recovery succeed, the tick goes on with that
  rest: sequence check, quota, signing, submission. In
  every other case, whatever the collaborators answer, the tick makes no call to the
  signer or the submitter; and it rejects with the stored error when that error has no
  transaction, or when the database answers that the transaction is not aborted and the
  renewed marking of the row succeeds. The stored error is never a network error
  (\<open>fatalError_never_network\<close>: the slot is written by \<open>handleFatalError\<close> only, which network
  errors do not reach).
\<close>

theorem C4_fatal_error_check:
  assumes "\<not> signingAndSubmitting s" and "fatalError s = Some fe" and "cls fe \<noteq> NetworkError"
  shows "(transaction fe = Some t0 \<and> db_isAborted E t0 (world s) = (Inr True, w0)
          \<longrightarrow> processPayments E mt s =
                settle E
                  (then_p (handleResignError E (Payload t0))
                     (\<lambda>_. afterFatalCheck E (effective_max mt))
                     (s\<lparr>signingAndSubmitting := True, fatalError := None, world := w0,
                        trace := trace s @ [IsAborted t0]\<rparr>)))
       \<and> (transaction fe = Some t \<and> db_isAborted E t (world s) = (Inr True, w1)
            \<and> db_clearSignedTransactionsFromId E (Some (txn_id t + 1)) w1 = (Inr (), w2)
            \<and> network_getAccountInfo E (stellarAddress s) w2 = (Inr n, w3)
            \<and> signer_setSequenceNumber E n w3 = (Inr (), w4)
          \<longrightarrow> processPayments E mt s =
                settle E (afterFatalCheck E (effective_max mt)
                  (s\<lparr>signingAndSubmitting := True, fatalError := None, world := w4,
                     trace := trace s @ [IsAborted t,
                                         ClearSignedTransactionsFromId (Some (txn_id t + 1)),
                                         GetAccountInfo (stellarAddress s),
                                         SetSequenceNumber n]\<rparr>)))
       \<and> (transaction fe = None
          \<longrightarrow> processPayments E mt s =
                (Inl fe, s\<lparr>trace := trace s @ [LogError ''No transaction for this error'',
                                                 LogError ''There's been a fatal error, aborting'',
                                                 LogError ''Fatal error'']\<rparr>))
       \<and> (transaction fe = Some t' \<and> db_isAborted E t' (world s) = (Inr False, w1')
            \<and> db_markTransactionError E t' (name fe) True w1' = (Inr (), w2')
          \<longrightarrow> processPayments E mt s =
                (Inl fe, s\<lparr>world := w2',
                           trace := trace s @ [IsAborted t',
                                               LogError ''There's been a fatal error, aborting'',
                                               LogError ''Fatal error'',
                                               MarkTransactionError t' (name fe) True]\<rparr>))
       \<and> (transaction fe = None
            \<or> (transaction fe = Some t'' \<and> fst (db_isAborted E t'' (world s)) \<noteq> Inr True)
          \<longrightarrow> filter is_sign_or_submit (trace (snd (processPayments E mt s)))
                = filter is_sign_or_submit (trace s))"
proof (intro conjI impI)
  assume "transaction fe = Some t0 \<and> db_isAborted E t0 (world s) = (Inr True, w0)"
  with assms(1,2) show "processPayments E mt s =
                settle E
                  (then_p (handleResignError E (Payload t0))
                     (\<lambda>_. afterFatalCheck E (effective_max mt))
                     (s\<lparr>signingAndSubmitting := True, fatalError := None, world := w0,
                        trace := trace s @ [IsAborted t0]\<rparr>))"
    by (cases s)
      (simp add: processPayments_def pipeline_afterFatalCheck checkFatalError_def then_p_def
        perform_def)
next
  assume a: "transaction fe = Some t \<and> db_isAborted E t (world s) = (Inr True, w1)
            \<and> db_clearSignedTransactionsFromId E (Some (txn_id t + 1)) w1 = (Inr (), w2)
            \<and> network_getAccountInfo E (stellarAddress s) w2 = (Inr n, w3)
            \<and> signer_setSequenceNumber E n w3 = (Inr (), w4)"
  then have a1: "transaction fe = Some t" and a2: "db_isAborted E t (world s) = (Inr True, w1)"
    and a3: "db_clearSignedTransactionsFromId E (Some (txn_id t + 1)) w1 = (Inr (), w2)"
    and a4: "network_getAccountInfo E (stellarAddress s) w2 = (Inr n, w3)"
    and a5: "signer_setSequenceNumber E n w3 = (Inr (), w4)"
    by simp_all
  show "processPayments E mt s =
                settle E (afterFatalCheck E (effective_max mt)
                  (s\<lparr>signingAndSubmitting := True, fatalError := None, world := w4,
                     trace := trace s @ [IsAborted t,
                                         ClearSignedTransactionsFromId (Some (txn_id t + 1)),
                                         GetAccountInfo (stellarAddress s),
                                         SetSequenceNumber n]\<rparr>))"
    by (rule fatal_tick_aborted [OF assms(1,2) a1 a2 a3 a4 a5])
next
  assume "transaction fe = None"
  then show "processPayments E mt s =
                (Inl fe, s\<lparr>trace := trace s @ [LogError ''No transaction for this error'',
                                                 LogError ''There's been a fatal error, aborting'',
                                                 LogError ''Fatal error'']\<rparr>)"
    by (rule fatal_tick_no_transaction [OF assms])
next
  assume a: "transaction fe = Some t' \<and> db_isAborted E t' (world s) = (Inr False, w1')
            \<and> db_markTransactionError E t' (name fe) True w1' = (Inr (), w2')"
  then have a1: "transaction fe = Some t'" and a2: "db_isAborted E t' (world s) = (Inr False, w1')"
    and a3: "db_markTransactionError E t' (name fe) True w1' = (Inr (), w2')"
    by simp_all
  show "processPayments E mt s =
                (Inl fe, s\<lparr>world := w2',
                           trace := trace s @ [IsAborted t',
                                               LogError ''There's been a fatal error, aborting'',
                                               LogError ''Fatal error'',
                                               MarkTransactionError t' (name fe) True]\<rparr>)"
    by (rule fatal_tick_not_aborted [OF assms a1 a2 a3])
next
  assume "transaction fe = None
            \<or> (transaction fe = Some t'' \<and> fst (db_isAborted E t'' (world s)) \<noteq> Inr True)"
  then have "transaction fe = None
         \<or> (\<exists>t. transaction fe = Some t \<and> fst (db_isAborted E t (world s)) \<noteq> Inr True)"
    by blast
  with assms(1,2) show "filter is_sign_or_submit (trace (snd (processPayments E mt s)))
                = filter is_sign_or_submit (trace s)"
    by (rule wedged_tick_no_signing)
qed

theorem C4_fatal_error_check_witness:
  "fst (processPayments sim_env None s_aborted) = Inr ()
   \<and> fatalError (snd (processPayments sim_env None s_aborted)) = None
   \<and> trace (snd (processPayments sim_env None s_aborted))
     = [IsAborted \<lparr>txn_id = 5\<rparr>, ClearSignedTransactionsFromId (Some 6), GetAccountInfo ''A'',
        SetSequenceNumber 105, GetSequenceNumber, GetSubmittedUnconfirmedTransactions,
        SignTransactions 10, SubmitTransactions]
   \<and> fst (processPayments sim_env None s_wedged_plain) = Inl plain_error
   \<and> trace (snd (processPayments sim_env None s_wedged_plain))
     = [LogError ''No transaction for this error'',
        LogError ''There's been a fatal error, aborting'', LogError ''Fatal error'']
   \<and> fst (processPayments sim_env None s_wedged) = Inl signing_error
   \<and> trace (snd (processPayments sim_env None s_wedged))
     = [IsAborted \<lparr>txn_id = 5\<rparr>, LogError ''There's been a fatal error, aborting'',
        LogError ''Fatal error'', MarkTransactionError \<lparr>txn_id = 5\<rparr> ''SigningError'' True]
   \<and> filter is_sign_or_submit
       (trace (snd (processPayments (sim_env\<lparr>db_isAborted := failing_isAborted db_error\<rparr>)
                      None s_wedged))) = []"
proof -
  let ?t = "\<lparr>txn_id = 5\<rparr>"
  let ?w1 = "snd (Store_isAborted ?t w_aborted)"
  let ?w2 = "snd (Store_clearSignedFrom (Some 6) ?w1)"
  let ?w3 = "snd (Ledger_getAccountInfo ''A'' ?w2)"
  let ?w4 = "snd (Signer_setSequence 105 ?w3)"
  have a1: "\<not> signingAndSubmitting s_aborted" and a2: "fatalError s_aborted = Some signing_error"
    and a3: "cls signing_error \<noteq> NetworkError"
    by (simp_all add: s_aborted_def new_Payments_def signing_error_def)
  have a4: "transaction signing_error = Some ?t
            \<and> db_isAborted sim_env ?t (world s_aborted) = (Inr True, ?w1)
            \<and> db_clearSignedTransactionsFromId sim_env (Some (txn_id ?t + 1)) ?w1 = (Inr (), ?w2)
            \<and> network_getAccountInfo sim_env (stellarAddress s_aborted) ?w2 = (Inr 105, ?w3)
            \<and> signer_setSequenceNumber sim_env 105 ?w3 = (Inr (), ?w4)"
    by code_simp
  from C4_fatal_error_check [OF a1 a2 a3, where t = ?t and ?w1.0 = ?w1 and ?w2.0 = ?w2
      and n = 105 and ?w3.0 = ?w3 and ?w4.0 = ?w4 and E = sim_env and mt = None] a4
  have A: "processPayments sim_env None s_aborted =
             settle sim_env (afterFatalCheck sim_env (effective_max None)
               (s_aborted\<lparr>signingAndSubmitting := True, fatalError := None, world := ?w4,
                  trace := trace s_aborted @ [IsAborted ?t,
                                      ClearSignedTransactionsFromId (Some (txn_id ?t + 1)),
                                      GetAccountInfo (stellarAddress s_aborted),
                                      SetSequenceNumber 105]\<rparr>))" (is "_ = ?R")
    by blast
  have "fst ?R = Inr () \<and> fatalError (snd ?R) = None
        \<and> trace (snd ?R)
          = [IsAborted ?t, ClearSignedTransactionsFromId (Some 6), GetAccountInfo ''A'',
             SetSequenceNumber 105, GetSequenceNumber, GetSubmittedUnconfirmedTransactions,
             SignTransactions 10, SubmitTransactions]"
    by code_simp
  with A have A': "fst (processPayments sim_env None s_aborted) = Inr ()
     \<and> fatalError (snd (processPayments sim_env None s_aborted)) = None
     \<and> trace (snd (processPayments sim_env None s_aborted))
       = [IsAborted ?t, ClearSignedTransactionsFromId (Some 6), GetAccountInfo ''A'',
          SetSequenceNumber 105, GetSequenceNumber, GetSubmittedUnconfirmedTransactions,
          SignTransactions 10, SubmitTransactions]"
    by simp
  have b1: "\<not> signingAndSubmitting s_wedged_plain"
    and b2: "fatalError s_wedged_plain = Some plain_error"
    and b3: "cls plain_error \<noteq> NetworkError" and b4: "transaction plain_error = None"
    by (simp_all add: s_wedged_plain_def new_Payments_def plain_error_def)
  from C4_fatal_error_check [OF b1 b2 b3, where E = sim_env and mt = None] b4
  have B: "processPayments sim_env None s_wedged_plain =
             (Inl plain_error,
              s_wedged_plain\<lparr>trace := trace s_wedged_plain @
                 [LogError ''No transaction for this error'',
                  LogError ''There's been a fatal error, aborting'',
                  LogError ''Fatal error'']\<rparr>)"
    by blast
  have B': "fst (processPayments sim_env None s_wedged_plain) = Inl plain_error
     \<and> trace (snd (processPayments sim_env None s_wedged_plain))
       = [LogError ''No transaction for this error'',
          LogError ''There's been a fatal error, aborting'', LogError ''Fatal error'']"
    by (simp add: B) (simp add: s_wedged_plain_def new_Payments_def)
  let ?v1 = "snd (Store_isAborted ?t w_wedged)"
  let ?v2 = "snd (Store_markError ?t ''SigningError'' True ?v1)"
  have c1: "\<not> signingAndSubmitting s_wedged" and c2: "fatalError s_wedged = Some signing_error"
    by (simp_all add: s_wedged_def new_Payments_def)
  have c4: "transaction signing_error = Some ?t
            \<and> db_isAborted sim_env ?t (world s_wedged) = (Inr False, ?v1)
            \<and> db_markTransactionError sim_env ?t (name signing_error) True ?v1 = (Inr (), ?v2)"
    by code_simp
  from C4_fatal_error_check [OF c1 c2 a3, where t' = ?t and ?w1' = ?v1 and ?w2' = ?v2
      and E = sim_env and mt = None] c4
  have C: "processPayments sim_env None s_wedged =
             (Inl signing_error,
              s_wedged\<lparr>world := ?v2,
                 trace := trace s_wedged @
                   [IsAborted ?t, LogError ''There's been a fatal error, aborting'',
                    LogError ''Fatal error'',
                    MarkTransactionError ?t (name signing_error) True]\<rparr>)"
    by blast
  have C': "fst (processPayments sim_env None s_wedged) = Inl signing_error
     \<and> trace (snd (processPayments sim_env None s_wedged))
       = [IsAborted ?t, LogError ''There's been a fatal error, aborting'',
          LogError ''Fatal error'', MarkTransactionError ?t ''SigningError'' True]"
    by (simp add: C) (simp add: s_wedged_def new_Payments_def signing_error_def)
  have d4: "transaction signing_error = None
            \<or> (transaction signing_error = Some ?t
                \<and> fst (db_isAborted (sim_env\<lparr>db_isAborted := failing_isAborted db_error\<rparr>) ?t
                         (world s_wedged)) \<noteq> Inr True)"
    by (simp add: signing_error_def failing_isAborted_def)
  from C4_fatal_error_check [OF c1 c2 a3, where t'' = ?t and mt = None
      and E = "sim_env\<lparr>db_isAborted := failing_isAborted db_error\<rparr>"] d4
  have D: "filter is_sign_or_submit
             (trace (snd (processPayments (sim_env\<lparr>db_isAborted := failing_isAborted db_error\<rparr>)
                            None s_wedged)))
           = filter is_sign_or_submit (trace s_wedged)"
    by blast
  have D': "filter is_sign_or_submit
             (trace (snd (processPayments (sim_env\<lparr>db_isAborted := failing_isAborted db_error\<rparr>)
                            None s_wedged))) = []"
    by (simp add: D) (simp add: s_wedged_def new_Payments_def)
  from A' B' C' D' show ?thesis by simp
qed

text \<open>
  Claim C4 as it is written fails where a call of the fatal-error check rejects. With a
  stored error on row 5, which is not aborted: when \<open>isAborted\<close> rejects with a network
  error the tick resolves instead of rejecting, and when the renewed marking of the row
  rejects the tick rejects with the database's error, not with the stored one. With row
  5 aborted and a network that rejects during the recovery, \<open>fatalError\<close> has been cleared
  and the tick resolves without going on to the sequence check, the signing and the
  submission.
\<close>

theorem C4_check_calls_may_reject:
  "fst (processPayments (sim_env\<lparr>db_isAborted := failing_isAborted network_error\<rparr>)
          None s_wedged) = Inr ()
   \<and> fst (processPayments (sim_env\<lparr>db_markTransactionError := failing_markError db_error\<rparr>)
          None s_wedged) = Inl db_error
   \<and> fatalError s_wedged = Some signing_error
   \<and> fst (processPayments
            (sim_env\<lparr>network_getAccountInfo := failing_getAccountInfo network_error\<rparr>)
            None s_aborted) = Inr ()
   \<and> fatalError (snd (processPayments
            (sim_env\<lparr>network_getAccountInfo := failing_getAccountInfo network_error\<rparr>)
            None s_aborted)) = None
   \<and> trace (snd (processPayments
            (sim_env\<lparr>network_getAccountInfo := failing_getAccountInfo network_error\<rparr>)
            None s_aborted))
     = [IsAborted \<lparr>txn_id = 5\<rparr>, ClearSignedTransactionsFromId (Some 6), GetAccountInfo ''A'',
        LogError ''Network error'']"
  by code_simp




section \<open>Errors of the signer and the submitter\<close>

text \<open>
  The recovery in steps is the recovery of \<open>handleResignError\<close>: started and given its two
  answers, it has made the same calls and left the same world, on success and on every
  rejection.
\<close>

lemma advance_completes_recovery:
  assumes "detached s = []"
  shows "advance E (advance E (startResignError m s)) = snd (handleResignError E m s)"
proof (cases "db_clearSignedTransactionsFromId E (id_plus_one m) (world s)")
  case (Pair r1 w1)
  show ?thesis
  proof (cases r1)
    case (Inl e)
    with Pair assms show ?thesis
      by (cases s)
        (simp add: advance_def startResignError_def handleResignError_def then_p_def
          perform_def)
  next
    case (Inr v)
    show ?thesis
    proof (cases "network_getAccountInfo E (stellarAddress s) w1")
      case p2: (Pair r2 w2)
      show ?thesis
      proof (cases r2)
        case (Inl e)
        with Pair Inr p2 assms show ?thesis
          by (cases s)
            (simp add: advance_def startResignError_def handleResignError_def
              getLatestSequenceNumberFromNetwork_def then_p_def perform_def)
      next
        case i2: (Inr n)
        with Pair Inr p2 assms show ?thesis
          by (cases s)
            (simp add: advance_def startResignError_def handleResignError_def
              getLatestSequenceNumberFromNetwork_def then_p_def perform_def
              split: prod.splits)
      qed
    qed
  qed
qed

text \<open>
  Claim C7. When the submitter rejects with a \<open>ResignTransactionError\<close>, the tick
  resolves: the error is caught in \<open>submitTransactions\<close>, \<open>fatalError\<close> stays unset, and the
  guard is released. The transaction handed to resign recovery is the error's \<open>message\<close>.
  The recovery is started and not waited for. Its first call,
  \<open>clearSignedTransactionsFromId\<close> on the \<open>id + 1\<close> of that \<open>message\<close>, has been made when
  the tick settles; how many of its answers have arrived by then is the environment's
  \<open>answers_before_settle\<close>, and for every such number, and whatever the database, the
  network and the Signer answer to the recovery, the outcome of the tick, \<open>fatalError\<close> and
  the guard are the same. When no answer has arrived, the tick has settled and released
  the guard with the world as the submitter left it, no demotion and no new cursor, and
  with the recovery still waiting for the database.
\<close>

theorem C7_resign_signal_detached:
  assumes "\<not> signingAndSubmitting s"
    and "beforeSigning E (effective_max mt) (s\<lparr>signingAndSubmitting := True\<rparr>) = (Inr limit, s2)"
    and "signer_signTransactions E limit (world s2) = (Inr (), w3)"
    and "submitter_submitTransactions E w3 = (Inl e, w4)"
    and "cls e = ResignTransactionError"
  shows "processPayments E mt s =
           (Inr (),
            (advances E (answers_before_settle E)
               (s2\<lparr>world := w4,
                   trace := trace s2 @ [SignTransactions limit, SubmitTransactions,
                              ClearSignedTransactionsFromId (id_plus_one (message e))],
                   detached := detached s2 @ [AwaitClear (message e)]\<rparr>))
            \<lparr>signingAndSubmitting := False\<rparr>)
         \<and> fatalError (snd (processPayments E mt s)) = None
         \<and> \<not> signingAndSubmitting (snd (processPayments E mt s))
         \<and> (answers_before_settle E = 0 \<longrightarrow>
               world (snd (processPayments E mt s)) = w4
               \<and> trace (snd (processPayments E mt s)) =
                   trace s2 @ [SignTransactions limit, SubmitTransactions,
                               ClearSignedTransactionsFromId (id_plus_one (message e))]
               \<and> detached (snd (processPayments E mt s)) =
                   detached s2 @ [AwaitClear (message e)])"
proof -
  let ?s3 = "s2\<lparr>world := w4,
                 trace := trace s2 @ [SignTransactions limit, SubmitTransactions,
                            ClearSignedTransactionsFromId (id_plus_one (message e))],
                 detached := detached s2 @ [AwaitClear (message e)]\<rparr>"
  have ss: "signAndSubmit E limit s2 = (Inr (), advances E (answers_before_settle E) ?s3)"
    using assms(3,4,5)
    by (cases s2)
      (simp add: signAndSubmit_def signTransactions_def submitTransactions_def then_p_def
        perform_def startResignError_def)
  have p: "pipeline E (effective_max mt) (s\<lparr>signingAndSubmitting := True\<rparr>) =
              (Inr (), advances E (answers_before_settle E) ?s3)"
    by (simp add: pipeline_beforeSigning then_p_def assms(2) ss)
  have t: "processPayments E mt s =
             (Inr (), (advances E (answers_before_settle E) ?s3)\<lparr>signingAndSubmitting := False\<rparr>)"
    using assms(1) by (simp add: processPayments_def p settle_Inr)
  have "fatalError s2 = None"
    using assms(2) by (rule beforeSigning_ok_clears)
  then have f: "fatalError (snd (processPayments E mt s)) = None"
    by (simp add: t advances_fatalError)
  have g: "\<not> signingAndSubmitting (snd (processPayments E mt s))"
    by (simp add: t)
  have z: "world (snd (processPayments E mt s)) = w4
               \<and> trace (snd (processPayments E mt s)) =
                   trace s2 @ [SignTransactions limit, SubmitTransactions,
                               ClearSignedTransactionsFromId (id_plus_one (message e))]
               \<and> detached (snd (processPayments E mt s)) =
                   detached s2 @ [AwaitClear (message e)]"
    if "answers_before_settle E = 0"
    using that by (simp add: t)
  from t f g z show ?thesis
    by blast
qed

theorem C7_resign_signal_detached_witness:
  "fst (processPayments sim_env None (new_Payments ''A'' w_resign)) = Inr ()
   \<and> fatalError (snd (processPayments sim_env None (new_Payments ''A'' w_resign))) = None
   \<and> \<not> signingAndSubmitting (snd (processPayments sim_env None (new_Payments ''A'' w_resign)))
   \<and> trace (snd (processPayments sim_env None (new_Payments ''A'' w_resign)))
     = [GetSequenceNumber, GetSubmittedUnconfirmedTransactions, SignTransactions 10,
        SubmitTransactions, ClearSignedTransactionsFromId (Some 2)]
   \<and> detached (snd (processPayments sim_env None (new_Payments ''A'' w_resign)))
     = [AwaitClear (Payload \<lparr>txn_id = 1\<rparr>)]
   \<and> map row_state (store (world (snd (processPayments sim_env None
        (new_Payments ''A'' w_resign))))) = [Signed, Signed, Signed]
   \<and> fst (processPayments sim_env_eager None (new_Payments ''A'' w_resign)) = Inr ()
   \<and> fatalError (snd (processPayments sim_env_eager None (new_Payments ''A'' w_resign))) = None
   \<and> trace (snd (processPayments sim_env_eager None (new_Payments ''A'' w_resign)))
     = [GetSequenceNumber, GetSubmittedUnconfirmedTransactions, SignTransactions 10,
        SubmitTransactions, ClearSignedTransactionsFromId (Some 2), GetAccountInfo ''A'',
        SetSequenceNumber 100]
   \<and> map row_state (store (world (snd (processPayments sim_env_eager None
        (new_Payments ''A'' w_resign))))) = [Signed, Pending, Pending]"
proof -
  let ?s = "new_Payments ''A'' w_resign"
  let ?e = "\<lparr>cls = ResignTransactionError, name = ''ResignTransactionError'',
            message = Payload \<lparr>txn_id = 1\<rparr>, transaction = None\<rparr>"
  have a1: "\<not> signingAndSubmitting ?s"
    by (simp add: new_Payments_def)
  have a5: "cls ?e = ResignTransactionError"
    by simp
  let ?s2 = "snd (beforeSigning sim_env (effective_max None) (?s\<lparr>signingAndSubmitting := True\<rparr>))"
  let ?w3 = "snd (Signer_signTransactions 10 (world ?s2))"
  let ?w4 = "snd (Submitter_submitTransactions ?w3)"
  have a2: "beforeSigning sim_env (effective_max None) (?s\<lparr>signingAndSubmitting := True\<rparr>)
            = (Inr 10, ?s2)"
    by code_simp
  have a3: "signer_signTransactions sim_env 10 (world ?s2) = (Inr (), ?w3)"
    by code_simp
  have a4: "submitter_submitTransactions sim_env ?w3 = (Inl ?e, ?w4)"
    by code_simp
  have a0: "answers_before_settle sim_env = 0"
    by (simp add: sim_env_def)
  note A = C7_resign_signal_detached [OF a1 a2 a3 a4 a5]
  from A [THEN conjunct1] have A1: "fst (processPayments sim_env None ?s) = Inr ()"
    by simp
  note A2 = A [THEN conjunct2, THEN conjunct1]
  note A3 = A [THEN conjunct2, THEN conjunct2, THEN conjunct1]
  from A [THEN conjunct2, THEN conjunct2, THEN conjunct2] a0 have A4: "world (snd (processPayments sim_env None ?s)) = ?w4"
    and A5: "trace (snd (processPayments sim_env None ?s)) =
                   trace ?s2 @ [SignTransactions 10, SubmitTransactions,
                               ClearSignedTransactionsFromId (id_plus_one (message ?e))]"
    and A6: "detached (snd (processPayments sim_env None ?s)) =
                   detached ?s2 @ [AwaitClear (message ?e)]"
    by blast+
  have ev: "trace ?s2 @ [SignTransactions 10, SubmitTransactions,
                               ClearSignedTransactionsFromId (id_plus_one (message ?e))]
          = [GetSequenceNumber, GetSubmittedUnconfirmedTransactions, SignTransactions 10,
             SubmitTransactions, ClearSignedTransactionsFromId (Some 2)]
        \<and> detached ?s2 @ [AwaitClear (message ?e)] = [AwaitClear (Payload \<lparr>txn_id = 1\<rparr>)]
        \<and> map row_state (store ?w4) = [Signed, Signed, Signed]"
    by code_simp
  have L: "trace (snd (processPayments sim_env None ?s))
     = [GetSequenceNumber, GetSubmittedUnconfirmedTransactions, SignTransactions 10,
        SubmitTransactions, ClearSignedTransactionsFromId (Some 2)]
   \<and> detached (snd (processPayments sim_env None ?s)) = [AwaitClear (Payload \<lparr>txn_id = 1\<rparr>)]
   \<and> map row_state (store (world (snd (processPayments sim_env None ?s))))
     = [Signed, Signed, Signed]"
    unfolding A4 A5 A6 by (rule ev)
  let ?t2 = "snd (beforeSigning sim_env_eager (effective_max None)
                    (?s\<lparr>signingAndSubmitting := True\<rparr>))"
  let ?v3 = "snd (Signer_signTransactions 10 (world ?t2))"
  let ?v4 = "snd (Submitter_submitTransactions ?v3)"
  have b2: "beforeSigning sim_env_eager (effective_max None) (?s\<lparr>signingAndSubmitting := True\<rparr>)
            = (Inr 10, ?t2)"
    by code_simp
  have b3: "signer_signTransactions sim_env_eager 10 (world ?t2) = (Inr (), ?v3)"
    by code_simp
  have b4: "submitter_submitTransactions sim_env_eager ?v3 = (Inl ?e, ?v4)"
    by code_simp
  note B = C7_resign_signal_detached [OF a1 b2 b3 b4 a5]
  note B0 = B [THEN conjunct1]
  from B0 have B1: "fst (processPayments sim_env_eager None ?s) = Inr ()"
    by simp
  note B2 = B [THEN conjunct2, THEN conjunct1]
  have ev2: "trace (snd (Inr () :: err + unit,
            (advances sim_env_eager (answers_before_settle sim_env_eager)
               (?t2\<lparr>world := ?v4,
                   trace := trace ?t2 @ [SignTransactions 10, SubmitTransactions,
                              ClearSignedTransactionsFromId (id_plus_one (message ?e))],
                   detached := detached ?t2 @ [AwaitClear (message ?e)]\<rparr>))
            \<lparr>signingAndSubmitting := False\<rparr>))
     = [GetSequenceNumber, GetSubmittedUnconfirmedTransactions, SignTransactions 10,
        SubmitTransactions, ClearSignedTransactionsFromId (Some 2), GetAccountInfo ''A'',
        SetSequenceNumber 100]
   \<and> map row_state (store (world (snd (Inr () :: err + unit,
            (advances sim_env_eager (answers_before_settle sim_env_eager)
               (?t2\<lparr>world := ?v4,
                   trace := trace ?t2 @ [SignTransactions 10, SubmitTransactions,
                              ClearSignedTransactionsFromId (id_plus_one (message ?e))],
                   detached := detached ?t2 @ [AwaitClear (message ?e)]\<rparr>))
            \<lparr>signingAndSubmitting := False\<rparr>)))) = [Signed, Pending, Pending]"
    by code_simp
  have M: "trace (snd (processPayments sim_env_eager None ?s))
     = [GetSequenceNumber, GetSubmittedUnconfirmedTransactions, SignTransactions 10,
        SubmitTransactions, ClearSignedTransactionsFromId (Some 2), GetAccountInfo ''A'',
        SetSequenceNumber 100]
   \<and> map row_state (store (world (snd (processPayments sim_env_eager None ?s))))
     = [Signed, Pending, Pending]"
    unfolding B0 by (rule ev2)
  from A1 A2 A3 L B1 B2 M show ?thesis
    by blast
qed

text \<open>
  Claim C8. When the signing or the submission of a tick rejects with a network error,
  the driver logs it and the tick resolves; \<open>fatalError\<close> is unset, and the only call
  the driver adds after the error is the log entry, so no row is marked in error: the
  rows stay as the failed call left them and the next tick takes them up again.
\<close>

theorem C8_network_error_swallowed:
  assumes "\<not> signingAndSubmitting s"
    and "beforeSigning E (effective_max mt) (s\<lparr>signingAndSubmitting := True\<rparr>) = (Inr limit, s2)"
    and "signAndSubmit E limit s2 = (Inl e, s3)"
    and "cls e = NetworkError"
  shows "processPayments E mt s =
           (Inr (), s3\<lparr>trace := trace s3 @ [LogError ''Network error''],
                      signingAndSubmitting := False\<rparr>)
         \<and> fatalError (snd (processPayments E mt s)) = None"
proof -
  have p: "pipeline E (effective_max mt) (s\<lparr>signingAndSubmitting := True\<rparr>) = (Inl e, s3)"
    by (simp add: pipeline_beforeSigning then_p_def assms(2,3))
  have "fatalError s2 = None"
    using assms(2) by (rule beforeSigning_ok_clears)
  moreover have "fatalError s3 = fatalError s2"
    using signAndSubmit_fatalError [of E limit s2] assms(3) by simp
  ultimately show ?thesis
    using assms(1) by (simp add: processPayments_def p settle_network [OF assms(4)])
qed

theorem C8_network_error_swallowed_witness:
  "fst (processPayments sim_env None (new_Payments ''A'' w_network)) = Inr ()
   \<and> fatalError (snd (processPayments sim_env None (new_Payments ''A'' w_network))) = None
   \<and> trace (snd (processPayments sim_env None (new_Payments ''A'' w_network)))
     = [GetSequenceNumber, GetSubmittedUnconfirmedTransactions, SignTransactions 10,
        SubmitTransactions, LogError ''Network error'']
   \<and> map row_state (store (world (snd (processPayments sim_env None
        (new_Payments ''A'' w_network))))) = [Signed, Signed]"
proof -
  let ?s = "new_Payments ''A'' w_network"
  let ?s2 = "snd (beforeSigning sim_env (effective_max None) (?s\<lparr>signingAndSubmitting := True\<rparr>))"
  let ?e = "\<lparr>cls = NetworkError, name = ''NetworkError'', message = Text ''network'',
            transaction = None\<rparr>"
  let ?s3 = "snd (signAndSubmit sim_env 10 ?s2)"
  have a1: "\<not> signingAndSubmitting ?s"
    by (simp add: new_Payments_def)
  have a2: "beforeSigning sim_env (effective_max None) (?s\<lparr>signingAndSubmitting := True\<rparr>)
            = (Inr 10, ?s2)"
    by code_simp
  have a3: "signAndSubmit sim_env 10 ?s2 = (Inl ?e, ?s3)"
    by code_simp
  have a4: "cls ?e = NetworkError"
    by simp
  note A = C8_network_error_swallowed [OF a1 a2 a3 a4]
  have "trace ?s3 @ [LogError ''Network error'']
          = [GetSequenceNumber, GetSubmittedUnconfirmedTransactions, SignTransactions 10,
             SubmitTransactions, LogError ''Network error'']
        \<and> map row_state (store (world ?s3)) = [Signed, Signed]"
    by code_simp
  with A [THEN conjunct1]
  have "fst (processPayments sim_env None ?s) = Inr ()
   \<and> trace (snd (processPayments sim_env None ?s))
     = [GetSequenceNumber, GetSubmittedUnconfirmedTransactions, SignTransactions 10,
        SubmitTransactions, LogError ''Network error'']
   \<and> map row_state (store (world (snd (processPayments sim_env None ?s))))
     = [Signed, Signed]"
    by simp
  with A [THEN conjunct2] show ?thesis
    by blast
qed

section \<open>The signing quota\<close>

text \<open>
  Claim C5. Once a tick has passed the fatal-error check and the sequence check, the
  limit it computes is the (defaulted) \<open>max_transactions\<close> minus the number of rows the
  database reports as submitted and unconfirmed, and this limit is the argument of the one
  call it makes to the signer. The driver makes that call also when the limit is zero or
  negative; it is the Signer of the specification that does nothing then, so that no row
  is signed.
\<close>

theorem C5_signing_limit:
  fixes E :: "sim env"
  assumes "\<not> signingAndSubmitting s"
    and "beforeQuota E (s\<lparr>signingAndSubmitting := True\<rparr>) = (Inr (), s2)"
    and "db_getSubmittedUnconfirmedTransactions E (world s2) = (Inr rs, w3)"
  shows "processPayments E mt s =
           settle E (signAndSubmit E (effective_max mt - int (length rs))
             (s2\<lparr>world := w3, trace := trace s2 @ [GetSubmittedUnconfirmedTransactions]\<rparr>))
       \<and> (signer_signTransactions E (effective_max mt - int (length rs)) w3 = (r, w4) \<longrightarrow>
            signTransactions E (effective_max mt - int (length rs))
              (s2\<lparr>world := w3, trace := trace s2 @ [GetSubmittedUnconfirmedTransactions]\<rparr>) =
            (r, s2\<lparr>world := w4,
                   trace := trace s2 @ [GetSubmittedUnconfirmedTransactions,
                              SignTransactions (effective_max mt - int (length rs))]\<rparr>))
       \<and> (signer_signTransactions E = Signer_signTransactions
            \<and> effective_max mt - int (length rs) \<le> 0 \<longrightarrow>
            signTransactions E (effective_max mt - int (length rs))
              (s2\<lparr>world := w3, trace := trace s2 @ [GetSubmittedUnconfirmedTransactions]\<rparr>) =
            (Inr (), s2\<lparr>world := w3,
                   trace := trace s2 @ [GetSubmittedUnconfirmedTransactions,
                              SignTransactions (effective_max mt - int (length rs))]\<rparr>))"
proof (intro conjI impI)
  let ?s3 = "s2\<lparr>world := w3, trace := trace s2 @ [GetSubmittedUnconfirmedTransactions]\<rparr>"
  let ?l = "effective_max mt - int (length rs)"
  have c: "calculateSigningLimit E (effective_max mt) s2 = (Inr ?l, ?s3)"
    using assms(3) by (rule calculateSigningLimit_eq)
  show "processPayments E mt s = settle E (signAndSubmit E ?l ?s3)"
    using assms(1) by (simp add: processPayments_def pipeline_beforeQuota then_p_def assms(2) c)
next
  let ?l = "effective_max mt - int (length rs)"
  assume "signer_signTransactions E ?l w3 = (r, w4)"
  then show "signTransactions E ?l
              (s2\<lparr>world := w3, trace := trace s2 @ [GetSubmittedUnconfirmedTransactions]\<rparr>) =
            (r, s2\<lparr>world := w4,
                   trace := trace s2 @ [GetSubmittedUnconfirmedTransactions, SignTransactions ?l]\<rparr>)"
    by (simp add: signTransactions_def perform_def)
next
  let ?l = "effective_max mt - int (length rs)"
  assume "signer_signTransactions E = Signer_signTransactions \<and> ?l \<le> 0"
  then show "signTransactions E ?l
              (s2\<lparr>world := w3, trace := trace s2 @ [GetSubmittedUnconfirmedTransactions]\<rparr>) =
            (Inr (), s2\<lparr>world := w3,
                   trace := trace s2 @ [GetSubmittedUnconfirmedTransactions, SignTransactions ?l]\<rparr>)"
    by (simp add: signTransactions_def perform_def Signer_signTransactions_def)
qed

theorem C5_signing_limit_witness:
  "trace (snd (processPayments sim_env (Some 2) (new_Payments ''A'' w_two_submitted)))
     = [GetSequenceNumber, GetSubmittedUnconfirmedTransactions, SignTransactions 0,
        SubmitTransactions]
   \<and> map row_state (store (world (snd (processPayments sim_env (Some 2)
        (new_Payments ''A'' w_two_submitted))))) = [Submitted, Submitted, Pending]
   \<and> trace (snd (processPayments sim_env (Some 3) (new_Payments ''A'' w_two_submitted)))
     = [GetSequenceNumber, GetSubmittedUnconfirmedTransactions, SignTransactions 1,
        SubmitTransactions]
   \<and> map row_state (store (world (snd (processPayments sim_env (Some 3)
        (new_Payments ''A'' w_two_submitted))))) = [Submitted, Submitted, Submitted]"
proof -
  let ?s = "new_Payments ''A'' w_two_submitted"
  let ?s2 = "snd (beforeQuota sim_env (?s\<lparr>signingAndSubmitting := True\<rparr>))"
  let ?rs = "[\<lparr>txn_id = 1\<rparr>, \<lparr>txn_id = 2\<rparr>]"
  let ?w3 = "snd (Store_listSubmittedUnconfirmed (world ?s2))"
  have a1: "\<not> signingAndSubmitting ?s"
    by (simp add: new_Payments_def)
  have a2: "beforeQuota sim_env (?s\<lparr>signingAndSubmitting := True\<rparr>) = (Inr (), ?s2)"
    by code_simp
  have a3: "db_getSubmittedUnconfirmedTransactions sim_env (world ?s2) = (Inr ?rs, ?w3)"
    by code_simp
  have a4: "signer_signTransactions sim_env = Signer_signTransactions
            \<and> effective_max (Some 2) - int (length ?rs) \<le> 0"
    by (simp add: sim_env_def effective_max_def)
  have a5: "signer_signTransactions sim_env (effective_max (Some 3) - int (length ?rs)) ?w3
            = (Inr (), snd (Signer_signTransactions 1 ?w3))"
    by code_simp
  from C5_signing_limit [OF a1 a2 a3, where mt = "Some 2"] a4
  have A: "processPayments sim_env (Some 2) ?s =
           settle sim_env (signAndSubmit sim_env (effective_max (Some 2) - int (length ?rs))
             (?s2\<lparr>world := ?w3, trace := trace ?s2 @ [GetSubmittedUnconfirmedTransactions]\<rparr>))"
      (is "_ = ?R")
    and B: "signTransactions sim_env (effective_max (Some 2) - int (length ?rs))
              (?s2\<lparr>world := ?w3, trace := trace ?s2 @ [GetSubmittedUnconfirmedTransactions]\<rparr>) =
            (Inr (), ?s2\<lparr>world := ?w3,
                   trace := trace ?s2 @ [GetSubmittedUnconfirmedTransactions,
                              SignTransactions (effective_max (Some 2) - int (length ?rs))]\<rparr>)"
    by blast+
  from C5_signing_limit [OF a1 a2 a3, where mt = "Some 3"
      and r = "Inr ()" and ?w4.0 = "snd (Signer_signTransactions 1 ?w3)"] a5
  have A3: "processPayments sim_env (Some 3) ?s =
           settle sim_env (signAndSubmit sim_env (effective_max (Some 3) - int (length ?rs))
             (?s2\<lparr>world := ?w3, trace := trace ?s2 @ [GetSubmittedUnconfirmedTransactions]\<rparr>))"
      (is "_ = ?R3")
    and C: "signTransactions sim_env (effective_max (Some 3) - int (length ?rs))
              (?s2\<lparr>world := ?w3, trace := trace ?s2 @ [GetSubmittedUnconfirmedTransactions]\<rparr>) =
            (Inr (), ?s2\<lparr>world := snd (Signer_signTransactions 1 ?w3),
                   trace := trace ?s2 @ [GetSubmittedUnconfirmedTransactions,
                              SignTransactions (effective_max (Some 3) - int (length ?rs))]\<rparr>)"
    by blast+
  have "trace (snd ?R)
          = [GetSequenceNumber, GetSubmittedUnconfirmedTransactions, SignTransactions 0,
             SubmitTransactions]
        \<and> map row_state (store (world (snd ?R))) = [Submitted, Submitted, Pending]
        \<and> trace (snd ?R3)
          = [GetSequenceNumber, GetSubmittedUnconfirmedTransactions, SignTransactions 1,
             SubmitTransactions]
        \<and> map row_state (store (world (snd ?R3))) = [Submitted, Submitted, Submitted]"
    by code_simp
  with A A3 B C show ?thesis
    by simp
qed

section \<open>Creating a payment\<close>

lemma validateAmount_accepted:
  "validateAmount is_valid parse a = Inr () \<longleftrightarrow> accepted_amount is_valid parse a"
proof (cases a)
  case (Primitive p)
  then show ?thesis
  proof (cases p)
    case (Number n)
    with Primitive show ?thesis
      by (cases n) (simp_all add: validateAmount_def truthy_amount_def typeof_amount_def)
  qed (simp_all add: validateAmount_def truthy_amount_def typeof_amount_def)
next
  case (Object obj)
  then show ?thesis
    by (simp add: validateAmount_def truthy_amount_def typeof_amount_def isNaN_def)
qed

lemma accepted_is_valid:
  assumes "\<not> coerced a"
  shows "accepted_amount is_valid parse a \<longleftrightarrow> valid_amount is_valid a"
proof (cases a)
  case (Primitive p)
  then show ?thesis
  proof (cases p)
    case (Number n)
    with Primitive show ?thesis
      by (cases n) simp_all
  qed simp_all
next
  case (Object obj)
  have v: "truthy (amount_value obj) \<and> to_number parse (amount_value obj) \<noteq> NaN
           \<longleftrightarrow> numeric (amount_value obj)"
    if "\<not> coerced_value (amount_value obj)"
  proof (cases "amount_value obj")
    case (Number n)
    with that show ?thesis
      by (cases n) simp_all
  next
    case (Bool b)
    with that show ?thesis by simp
  next
    case (String x)
    with that show ?thesis by simp
  qed simp_all
  have c: "\<not> truthy (amount_currency obj) \<or> typeof (amount_currency obj) = T_string
           \<longleftrightarrow> (present (amount_currency obj) \<longrightarrow> typeof (amount_currency obj) = T_string)"
    if "\<not> (present (amount_currency obj) \<and> \<not> truthy (amount_currency obj)
              \<and> typeof (amount_currency obj) \<noteq> T_string)"
    using that by (cases "amount_currency obj") (auto simp: present_def)
  have i: "\<not> truthy (amount_issuer obj) \<or> is_valid (amount_issuer obj)
           \<longleftrightarrow> (present (amount_issuer obj) \<longrightarrow> is_valid (amount_issuer obj))"
    if "\<not> (present (amount_issuer obj) \<and> \<not> truthy (amount_issuer obj))"
    using that by (cases "amount_issuer obj") (auto simp: present_def)
  from assms Object have n: "\<not> coerced_value (amount_value obj)"
    and n2: "\<not> (present (amount_currency obj) \<and> \<not> truthy (amount_currency obj)
              \<and> typeof (amount_currency obj) \<noteq> T_string)"
    and n3: "\<not> (present (amount_issuer obj) \<and> \<not> truthy (amount_issuer obj))"
    by (simp_all add: coerced_def)
  show ?thesis
    using v [OF n] c [OF n2] i [OF n3] by (simp add: Object) blast
qed

text \<open>
  Claim C9, as the code has it. \<open>createNewPayment\<close> throws before it touches the database
  unless the destination is a valid address and the amount is a numeric scalar other than
  zero, positive or negative, or a tuple whose value is numeric, whose currency, if
  present, is a string and whose issuer, if present, is a valid address; for every such
  input it calls \<open>insertNewTransaction\<close>, which under the Store's contract adds a Pending
  row. This is stated for the amounts that are not \<open>coerced\<close>; what the code does with a
  tuple whose properties it coerces is left open.
\<close>

theorem C9_createNewPayment:
  assumes "\<not> coerced a"
  shows "(\<not> (is_valid address \<and> valid_amount is_valid a) \<longrightarrow>
            isl (fst (createNewPayment is_valid parse ins address a memo d))
            \<and> snd (createNewPayment is_valid parse ins address a memo d) = d)
       \<and> (is_valid address \<and> valid_amount is_valid a \<longrightarrow>
            createNewPayment is_valid parse ins address a memo d =
              (Inr (fst (ins address a memo d)), snd (ins address a memo d))
            \<and> createNewPayment is_valid parse Store_insertPending address a memo rs =
              (Inr (Inr ()),
               rs @ [\<lparr>row_id = max_id rs + 1, row_state = Pending, row_sequence = None,
                       row_artifact = None\<rparr>]))"
proof (intro conjI impI)
  assume "\<not> (is_valid address \<and> valid_amount is_valid a)"
  then have n: "\<not> (is_valid address \<and> validateAmount is_valid parse a = Inr ())"
    using assms by (simp add: validateAmount_accepted accepted_is_valid)
  show "isl (fst (createNewPayment is_valid parse ins address a memo d))"
  proof (cases "is_valid address")
    case False
    then show ?thesis by (simp add: createNewPayment_def)
  next
    case True
    with n obtain e where "validateAmount is_valid parse a = Inl e"
      by (cases "validateAmount is_valid parse a") simp_all
    with True show ?thesis by (simp add: createNewPayment_def)
  qed
  show "snd (createNewPayment is_valid parse ins address a memo d) = d"
  proof (cases "is_valid address")
    case False
    then show ?thesis by (simp add: createNewPayment_def)
  next
    case True
    with n obtain e where "validateAmount is_valid parse a = Inl e"
      by (cases "validateAmount is_valid parse a") simp_all
    with True show ?thesis by (simp add: createNewPayment_def)
  qed
next
  assume y: "is_valid address \<and> valid_amount is_valid a"
  then have v: "validateAmount is_valid parse a = Inr ()"
    using assms by (simp add: validateAmount_accepted accepted_is_valid)
  from y v show "createNewPayment is_valid parse ins address a memo d =
          (Inr (fst (ins address a memo d)), snd (ins address a memo d))"
    by (simp add: createNewPayment_def split: prod.splits)
  from y v show "createNewPayment is_valid parse Store_insertPending address a memo rs =
          (Inr (Inr ()),
           rs @ [\<lparr>row_id = max_id rs + 1, row_state = Pending, row_sequence = None,
                   row_artifact = None\<rparr>])"
    by (simp add: createNewPayment_def Store_insertPending_def)
qed

theorem C9_createNewPayment_witness:
  "createNewPayment (only_address ''gDest'') no_parse Store_insertPending (String ''gDest'')
     (Object \<lparr>amount_value = Number (Num 10), amount_currency = String ''USD'',
              amount_issuer = String ''gDest''\<rparr>) Undefined []
     = (Inr (Inr ()), [\<lparr>row_id = 1, row_state = Pending, row_sequence = None,
                        row_artifact = None\<rparr>])
   \<and> createNewPayment (only_address ''gDest'') no_parse Store_insertPending (String ''gDest'')
     (Primitive (Number (Num (- 5)))) Undefined []
     = (Inr (Inr ()), [\<lparr>row_id = 1, row_state = Pending, row_sequence = None,
                        row_artifact = None\<rparr>])
   \<and> isl (fst (createNewPayment (only_address ''gDest'') no_parse Store_insertPending
        (String ''gDest'') (Primitive (Number (Num 0))) Undefined []))
   \<and> snd (createNewPayment (only_address ''gDest'') no_parse Store_insertPending
        (String ''gDest'') (Primitive (Number (Num 0))) Undefined []) = []
   \<and> isl (fst (createNewPayment (only_address ''gDest'') no_parse Store_insertPending
        (String ''gDest'')
        (Object \<lparr>amount_value = Number (Num 10), amount_currency = Number (Num 7),
                 amount_issuer = Undefined\<rparr>) Undefined []))"
proof -
  let ?obj = "Object \<lparr>amount_value = Number (Num 10), amount_currency = String ''USD'',
              amount_issuer = String ''gDest''\<rparr>"
  let ?bad = "Object \<lparr>amount_value = Number (Num 10), amount_currency = Number (Num 7),
                 amount_issuer = Undefined\<rparr>"
  have p1: "\<not> coerced ?obj" and p2: "\<not> coerced (Primitive (Number (Num 0)))"
    and p3: "\<not> coerced (Primitive (Number (Num (- 5))))" and p4: "\<not> coerced ?bad"
    by (simp_all add: coerced_def present_def)
  have y: "only_address ''gDest'' (String ''gDest'')
           \<and> valid_amount (only_address ''gDest'') ?obj"
    by (simp add: only_address_def present_def)
  have y3: "only_address ''gDest'' (String ''gDest'')
           \<and> valid_amount (only_address ''gDest'') (Primitive (Number (Num (- 5))))"
    by (simp add: only_address_def)
  have n: "\<not> (only_address ''gDest'' (String ''gDest'')
           \<and> valid_amount (only_address ''gDest'') (Primitive (Number (Num 0))))"
    by simp
  have n4: "\<not> (only_address ''gDest'' (String ''gDest'')
           \<and> valid_amount (only_address ''gDest'') ?bad)"
    by (simp add: present_def)
  from C9_createNewPayment [OF p1, of "only_address ''gDest''" "String ''gDest''" no_parse
      Store_insertPending Undefined "[]" "[]"] y
  have A: "createNewPayment (only_address ''gDest'') no_parse Store_insertPending
             (String ''gDest'') ?obj Undefined []
           = (Inr (Inr ()), [] @ [\<lparr>row_id = max_id [] + 1, row_state = Pending,
                                   row_sequence = None, row_artifact = None\<rparr>])"
    by blast
  from C9_createNewPayment [OF p3, of "only_address ''gDest''" "String ''gDest''" no_parse
      Store_insertPending Undefined "[]" "[]"] y3
  have A3: "createNewPayment (only_address ''gDest'') no_parse Store_insertPending
             (String ''gDest'') (Primitive (Number (Num (- 5)))) Undefined []
           = (Inr (Inr ()), [] @ [\<lparr>row_id = max_id [] + 1, row_state = Pending,
                                   row_sequence = None, row_artifact = None\<rparr>])"
    by blast
  from C9_createNewPayment [OF p2, of "only_address ''gDest''" "String ''gDest''" no_parse
      Store_insertPending Undefined "[]" "[]"] n
  have B: "isl (fst (createNewPayment (only_address ''gDest'') no_parse Store_insertPending
        (String ''gDest'') (Primitive (Number (Num 0))) Undefined []))
   \<and> snd (createNewPayment (only_address ''gDest'') no_parse Store_insertPending
        (String ''gDest'') (Primitive (Number (Num 0))) Undefined []) = []"
    by blast
  from C9_createNewPayment [OF p4, of "only_address ''gDest''" "String ''gDest''" no_parse
      Store_insertPending Undefined "[]" "[]"] n4
  have B4: "isl (fst (createNewPayment (only_address ''gDest'') no_parse Store_insertPending
        (String ''gDest'') ?bad Undefined []))"
    by blast
  from A A3 B B4 show ?thesis by simp
qed

text \<open>
  Claim C9 as it is written fails: the amount -5 is not positive, and the payment is
  inserted.
\<close>

theorem C9_negative_amount_inserted:
  "createNewPayment (only_address ''gDest'') no_parse Store_insertPending (String ''gDest'')
     (Primitive (Number (Num (- 5)))) Undefined []
     = (Inr (Inr ()), [\<lparr>row_id = 1, row_state = Pending, row_sequence = None,
                        row_artifact = None\<rparr>])"
  by (simp add: createNewPayment_def validateAmount_def truthy_amount_def typeof_amount_def
      only_address_def Store_insertPending_def)

end
